theory Spec2Isabelle
  imports Complex_Main "HOL-Library.Sublist" "HOL-Library.Char_ord" "HOL-Library.List_Lexorder"
    "HOL-Library.Multiset"
begin
section \<open>Python values used by the scraper\<close>

text \<open>
  Python strings are modelled as \<^typ>\<open>string\<close>, read as the UTF-8 bytes of the text.
  The operations of Python that work on characters work on the characters these bytes
  encode: \<open>utf8_chars\<close> cuts a text into its characters, each the bytes of one code
  point, and \<open>code_point\<close> reads the code point of a character.
\<close>

datatype error =
    NoSuchElementException
  | TimeoutException
  | WebDriverException string
  | ValueError
  | ZeroDivisionError

definition is_continuation :: "char \<Rightarrow> bool" where
  "is_continuation b = (128 \<le> (of_char b :: nat) \<and> (of_char b :: nat) < 192)"

text \<open>
  In UTF-8 the first byte of a character is the only one outside \<open>0x80..0xBF\<close>, so a
  character ends where the next byte that is no continuation byte begins.
\<close>

fun utf8_chars :: "string \<Rightarrow> string list" where
  "utf8_chars [] = []"
| "utf8_chars (b # bs) =
     (case utf8_chars bs of
        [] \<Rightarrow> [[b]]
      | g # rest \<Rightarrow>
          if (case g of c # cs \<Rightarrow> is_continuation c | [] \<Rightarrow> False)
          then (b # g) # rest
          else [b] # g # rest)"

text \<open>
  The code point of a character: \<open>None\<close> for bytes that are no UTF-8 encoding of a code
  point (a stray continuation byte, a truncated or overlong form, a surrogate, a value
  beyond \<open>U+10FFFF\<close>).
\<close>

fun code_point_of :: "nat list \<Rightarrow> nat option" where
  "code_point_of [a] = (if a < 128 then Some a else None)"
| "code_point_of [a, b] =
     (if 194 \<le> a \<and> a < 224 \<and> 128 \<le> b \<and> b < 192
      then Some ((a - 192) * 64 + (b - 128)) else None)"
| "code_point_of [a, b, c] =
     (let n = (a - 224) * 4096 + (b - 128) * 64 + (c - 128)
      in if 224 \<le> a \<and> a < 240 \<and> 128 \<le> b \<and> b < 192 \<and> 128 \<le> c \<and> c < 192 \<and>
            2048 \<le> n \<and> \<not> (55296 \<le> n \<and> n < 57344)
         then Some n else None)"
| "code_point_of [a, b, c, d] =
     (let n = (a - 240) * 262144 + (b - 128) * 4096 + (c - 128) * 64 + (d - 128)
      in if 240 \<le> a \<and> a < 248 \<and> 128 \<le> b \<and> b < 192 \<and> 128 \<le> c \<and> c < 192 \<and>
            128 \<le> d \<and> d < 192 \<and> 65536 \<le> n \<and> n < 1114112
         then Some n else None)"
| "code_point_of bytes = None"

definition code_point :: "string \<Rightarrow> nat option" where
  "code_point g = code_point_of (map of_char g)"

text \<open>
  What the interpreter's Unicode character database says is not part of the program:
  it is the parameter \<open>U\<close> of everything that consults it. \<open>isspace U n\<close> tells whether
  code point \<open>n\<close> is white space (the characters \<open>str.strip()\<close> removes), \<open>decimal U n\<close>
  is the value of \<open>n\<close> as a decimal digit if it is one (the characters the pattern
  \<open>\d\<close> matches and \<open>float()\<close> reads, in any script), and \<open>lower U s\<close> is
  \<open>s.lower()\<close>.
\<close>

record unicode =
  isspace :: "nat \<Rightarrow> bool"
  decimal :: "nat \<Rightarrow> nat option"
  lower :: "string \<Rightarrow> string"

definition is_space :: "unicode \<Rightarrow> string \<Rightarrow> bool" where
  "is_space U g = (case code_point g of Some n \<Rightarrow> isspace U n | None \<Rightarrow> False)"

definition strip :: "unicode \<Rightarrow> string \<Rightarrow> string" where
  "strip U s =
     concat (rev (dropWhile (is_space U) (rev (dropWhile (is_space U) (utf8_chars s)))))"

definition is_digit :: "unicode \<Rightarrow> string \<Rightarrow> bool" where
  "is_digit U g =
     (case code_point g of Some n \<Rightarrow> decimal U n \<noteq> None | None \<Rightarrow> False)"

definition digit_val :: "unicode \<Rightarrow> string \<Rightarrow> nat" where
  "digit_val U g =
     (case code_point g of
        Some n \<Rightarrow> (case decimal U n of Some v \<Rightarrow> v | None \<Rightarrow> 0)
      | None \<Rightarrow> 0)"

fun digits_val :: "unicode \<Rightarrow> nat \<Rightarrow> string list \<Rightarrow> nat" where
  "digits_val U acc [] = acc"
| "digits_val U acc (c # cs) = digits_val U (10 * acc + digit_val U c) cs"

subsection \<open>Floating point\<close>

text \<open>
  A Python \<open>float\<close> is an IEEE 754 binary64 value: a signed finite number (the sign is
  kept apart, so that \<open>-0.0\<close> is a value), a signed infinity, or NaN. The finite values
  carry their exact rational magnitude; every operation computes the exact result and
  rounds it to the nearest binary64 value, ties to even, as the hardware does.
\<close>

datatype pyfloat = Finite bool rat | Infinity bool | NaN

fun bitlen_nat :: "nat \<Rightarrow> nat" where
  "bitlen_nat n = (if n = 0 then 0 else Suc (bitlen_nat (n div 2)))"

declare bitlen_nat.simps [simp del]

definition floor_log2 :: "rat \<Rightarrow> int" where
  "floor_log2 m =
     (if 1 \<le> m then int (bitlen_nat (nat \<lfloor>m\<rfloor>)) - 1
      else - int (bitlen_nat (nat \<lceil>1 / m\<rceil> - 1)))"

definition pow2 :: "int \<Rightarrow> rat" where
  "pow2 k = (if 0 \<le> k then 2 ^ nat k else 1 / 2 ^ nat (- k))"

definition round_half_even :: "rat \<Rightarrow> int" where
  "round_half_even q =
     (let f = \<lfloor>q\<rfloor>; d = q - of_int f
      in if d < 1 / 2 then f
         else if 1 / 2 < d then f + 1
         else if even f then f else f + 1)"

definition round_double :: "bool \<Rightarrow> rat \<Rightarrow> pyfloat" where
  "round_double s m =
     (if m = 0 then Finite s 0
      else let e = max (floor_log2 m) (- 1022);
               ulp = pow2 (e - 52);
               r = of_int (round_half_even (m / ulp)) * ulp
           in if pow2 1024 \<le> r then Infinity s else Finite s r)"

definition signed_val :: "bool \<Rightarrow> rat \<Rightarrow> rat" where
  "signed_val s m = (if s then - m else m)"

fun fsub :: "pyfloat \<Rightarrow> pyfloat \<Rightarrow> pyfloat" where
  "fsub NaN y = NaN"
| "fsub x NaN = NaN"
| "fsub (Infinity a) (Infinity b) = (if a = b then NaN else Infinity a)"
| "fsub (Infinity a) (Finite s m) = Infinity a"
| "fsub (Finite s m) (Infinity b) = Infinity (\<not> b)"
| "fsub (Finite s1 m1) (Finite s2 m2) =
     (let v = signed_val s1 m1 - signed_val s2 m2
      in if v = 0 then Finite (m1 = 0 \<and> s1 \<and> \<not> s2) 0
         else round_double (v < 0) \<bar>v\<bar>)"

fun is_zero :: "pyfloat \<Rightarrow> bool" where
  "is_zero (Finite s m) = (m = 0)"
| "is_zero x = False"

fun fdiv_ieee :: "pyfloat \<Rightarrow> pyfloat \<Rightarrow> pyfloat" where
  "fdiv_ieee NaN y = NaN"
| "fdiv_ieee x NaN = NaN"
| "fdiv_ieee (Infinity a) (Infinity b) = NaN"
| "fdiv_ieee (Infinity a) (Finite s m) = Infinity (a \<noteq> s)"
| "fdiv_ieee (Finite s m) (Infinity b) = Finite (s \<noteq> b) 0"
| "fdiv_ieee (Finite s1 m1) (Finite s2 m2) = round_double (s1 \<noteq> s2) (m1 / m2)"

definition fdiv :: "pyfloat \<Rightarrow> pyfloat \<Rightarrow> error + pyfloat" where
  "fdiv x y = (if is_zero y then Inl ZeroDivisionError else Inr (fdiv_ieee x y))"

fun fmul :: "pyfloat \<Rightarrow> pyfloat \<Rightarrow> pyfloat" where
  "fmul NaN y = NaN"
| "fmul x NaN = NaN"
| "fmul (Infinity a) (Infinity b) = Infinity (a \<noteq> b)"
| "fmul (Infinity a) (Finite s m) = (if m = 0 then NaN else Infinity (a \<noteq> s))"
| "fmul (Finite s m) (Infinity b) = (if m = 0 then NaN else Infinity (s \<noteq> b))"
| "fmul (Finite s1 m1) (Finite s2 m2) = round_double (s1 \<noteq> s2) (m1 * m2)"

fun fgt0 :: "pyfloat \<Rightarrow> bool" where
  "fgt0 (Finite s m) = (\<not> s \<and> 0 < m)"
| "fgt0 (Infinity s) = (\<not> s)"
| "fgt0 NaN = False"

fun str_nat :: "nat \<Rightarrow> string" where
  "str_nat n =
     (if n < 10 then [char_of (48 + n)]
      else str_nat (n div 10) @ [char_of (48 + n mod 10)])"

declare str_nat.simps [simp del]

text \<open>
  \<open>fmt1f x\<close> is the format \<open>f"{x:.1f}"\<close>: the exact value of the float rounded to one
  decimal place, ties to even, with the sign bit shown (so \<open>-0.0\<close> for a negative value
  that rounds to zero); the infinities and NaN print as words.
\<close>

fun fmt1f :: "pyfloat \<Rightarrow> string" where
  "fmt1f (Finite s m) =
     (let n = nat (round_half_even (m * 10))
      in (if s then ''-'' else '''') @ str_nat (n div 10) @ ''.'' @ str_nat (n mod 10))"
| "fmt1f (Infinity s) = (if s then ''-inf'' else ''inf'')"
| "fmt1f NaN = ''nan''"

text \<open>
  \<open>re_sub_non_numeric U s\<close> is \<open>re.sub(r'[^\d.]', '', s)\<close>: it keeps the characters that
  are decimal digits of any script and the full stops. \<open>py_float\<close> is \<open>float()\<close> on
  what that substitution leaves, a string of digits and dots: a digit string with at
  most one dot and at least one digit is read as a decimal numeral, every digit by its
  decimal value, and rounded to the nearest float; anything else raises \<open>ValueError\<close>.
\<close>

definition re_sub_non_numeric :: "unicode \<Rightarrow> string \<Rightarrow> string" where
  "re_sub_non_numeric U s = concat (filter (\<lambda>g. is_digit U g \<or> g = ''.'') (utf8_chars s))"

definition py_float :: "unicode \<Rightarrow> string \<Rightarrow> error + pyfloat" where
  "py_float U t =
     (let ip = takeWhile (\<lambda>g. g \<noteq> ''.'') (utf8_chars t);
          rest = dropWhile (\<lambda>g. g \<noteq> ''.'') (utf8_chars t)
      in case rest of
           [] \<Rightarrow> if ip = [] then Inl ValueError
                 else Inr (round_double False (of_nat (digits_val U 0 ip)))
         | _ # fp \<Rightarrow>
             if ''.'' \<in> set fp \<or> (ip = [] \<and> fp = []) then Inl ValueError
             else Inr (round_double False
                        (of_nat (digits_val U 0 (ip @ fp)) / 10 ^ length fp)))"

section \<open>Field extraction\<close>

text \<open>
  A product element of the page is what the browser answers to the lookups the scraper
  makes on it. A lookup \<open>find_element(...)\<close> followed by \<open>.text\<close> or \<open>get_attribute\<close>
  either yields a value or raises: \<open>NoSuchElementException\<close> when the sub-element is
  missing, some other driver exception otherwise. An attribute that is not set reads as
  Python's \<open>None\<close>.
\<close>

record element =
  el_name :: "error + string"
  el_discountedPrice :: "error + string"
  el_originalPrice :: "error + string"
  el_price :: "error + string"
  el_subText :: "error + string"
  el_a_href :: "error + string option"
  el_img_src :: "error + string option"

definition safe_text :: "unicode \<Rightarrow> error + string \<Rightarrow> error + string" where
  "safe_text U target =
     (case target of
        Inr text \<Rightarrow> Inr (strip U text)
      | Inl NoSuchElementException \<Rightarrow> Inr ''''
      | Inl e \<Rightarrow> Inl e)"

record price_info =
  pi_price :: string
  pi_original_price :: string
  pi_discount_percentage :: string

text \<open>
  The inner \<open>try\<close> of \<open>extract_price_info\<close>: \<open>Inr (Some s)\<close> when the percentage is
  assigned, \<open>Inr None\<close> when the guard \<open>orig_val > 0\<close> is false, \<open>Inl e\<close> when a
  statement raises (the bare \<open>except\<close> then passes).
\<close>

definition discount_of :: "unicode \<Rightarrow> string \<Rightarrow> string \<Rightarrow> error + string option" where
  "discount_of U discounted original =
     (case py_float U (re_sub_non_numeric U discounted) of
        Inl e \<Rightarrow> Inl e
      | Inr disc_val \<Rightarrow>
          (case py_float U (re_sub_non_numeric U original) of
             Inl e \<Rightarrow> Inl e
           | Inr orig_val \<Rightarrow>
               if fgt0 orig_val then
                 (case fdiv (fsub orig_val disc_val) orig_val of
                    Inl e \<Rightarrow> Inl e
                  | Inr q \<Rightarrow> Inr (Some (fmt1f (fmul q (Finite False 100)) @ ''%'')))
               else Inr None))"

definition extract_price_info :: "unicode \<Rightarrow> element \<Rightarrow> price_info" where
  "extract_price_info U product_element =
     (let price_info = \<lparr>pi_price = '''', pi_original_price = '''', pi_discount_percentage = ''''\<rparr>
      in case safe_text U (el_discountedPrice product_element) of
           Inl e \<Rightarrow> price_info
         | Inr discounted \<Rightarrow>
             if discounted \<noteq> '''' then
               (let price_info = price_info\<lparr>pi_price := discounted\<rparr>
                in case safe_text U (el_originalPrice product_element) of
                     Inl e \<Rightarrow> price_info
                   | Inr original \<Rightarrow>
                       if original \<noteq> '''' then
                         (let price_info = price_info\<lparr>pi_original_price := original\<rparr>
                          in case discount_of U discounted original of
                               Inr (Some s) \<Rightarrow> price_info\<lparr>pi_discount_percentage := s\<rparr>
                             | _ \<Rightarrow> price_info)
                       else price_info)
             else
               (case safe_text U (el_price product_element) of
                  Inl e \<Rightarrow> price_info
                | Inr regular_price \<Rightarrow>
                    if regular_price \<noteq> '''' then price_info\<lparr>pi_price := regular_price\<rparr>
                    else price_info))"

section \<open>Page loader\<close>

text \<open>
  \<open>scroll_to_load_products\<close> reads \<open>document.body.scrollHeight\<close> once before the loop
  and once in every round. \<open>heights k\<close> is the value of the \<open>k\<close>-th read (\<open>heights 0\<close> the
  one before the loop), so round \<open>k\<close> sees no change when \<open>heights k = heights (k - 1)\<close>.
  The source returns nothing and logs \<open>scroll_count\<close>; the model returns it.
\<close>

definition MAX_SCROLLS :: int where
  "MAX_SCROLLS = 20"

function scroll_loop :: "(nat \<Rightarrow> int) \<Rightarrow> int \<Rightarrow> int \<Rightarrow> nat \<Rightarrow> nat \<Rightarrow> nat" where
  "scroll_loop heights max_scrolls last_height scroll_count no_change_count =
     (if int scroll_count < max_scrolls \<and> no_change_count < 3 then
        (let new_height = heights (Suc scroll_count);
             no_change_count' = (if new_height = last_height then no_change_count + 1 else 0)
         in scroll_loop heights max_scrolls new_height (Suc scroll_count) no_change_count')
      else scroll_count)"
  by pat_completeness auto
termination
  by (relation "measure (\<lambda>(heights, max_scrolls, last_height, scroll_count, no_change_count).
        nat (max_scrolls - int scroll_count))") auto

declare scroll_loop.simps [simp del]

definition scroll_to_load_products :: "(nat \<Rightarrow> int) \<Rightarrow> int \<Rightarrow> nat" where
  "scroll_to_load_products heights max_scrolls =
     scroll_loop heights max_scrolls (heights 0) 0 0"

section \<open>Category registry\<close>

text \<open>
  The cache file \<open>chaldal_verified_categories.json\<close> holds a dictionary from the
  lower-cased category name to its entry. A Python dictionary keeps its keys in
  insertion order, so it is an association list here; \<open>dict_set\<close> is the assignment
  \<open>d[k] = v\<close>. \<open>load_verified_categories\<close> returns the empty dictionary when the
  file is missing or unreadable, so the cache argument below stands for its result.
\<close>

type_synonym timestamp = string

record category_entry =
  ce_name :: string
  ce_url :: string
  ce_level :: nat
  ce_parent :: "string option"
  ce_product_count :: nat
  ce_verified :: bool
  ce_verified_at :: timestamp

type_synonym categories = "(string \<times> category_entry) list"

fun dict_set :: "'k \<Rightarrow> 'v \<Rightarrow> ('k \<times> 'v) list \<Rightarrow> ('k \<times> 'v) list" where
  "dict_set k v [] = [(k, v)]"
| "dict_set k v ((k', v') # rest) =
     (if k' = k then (k, v) # rest else (k', v') # dict_set k v rest)"

definition BASE_URL :: string where
  "BASE_URL = ''https://chaldal.com/''"

definition py_in :: "string \<Rightarrow> string \<Rightarrow> bool" where
  "py_in a b = sublist a b"

definition replace_space_hyphen :: "string \<Rightarrow> string" where
  "replace_space_hyphen s = map (\<lambda>c. if c = CHR '' '' then CHR ''-'' else c) s"

text \<open>The \<open>for key, data in categories.items()\<close> loop and the fallback after it.\<close>

fun partial_match :: "unicode \<Rightarrow> categories \<Rightarrow> string \<Rightarrow> string" where
  "partial_match U [] category_name =
     BASE_URL @ replace_space_hyphen (lower U category_name)"
| "partial_match U ((key, data) # rest) category_name =
     (if py_in (lower U category_name) key \<or> py_in key (lower U category_name)
      then BASE_URL @ ce_url data
      else partial_match U rest category_name)"

definition get_category_url :: "unicode \<Rightarrow> categories \<Rightarrow> string \<Rightarrow> string" where
  "get_category_url U categories category_name =
     (case map_of categories (lower U category_name) of
        Some data \<Rightarrow> BASE_URL @ ce_url data
      | None \<Rightarrow> partial_match U categories category_name)"

section \<open>Category verifier\<close>

text \<open>
  What the browser shows for a candidate URL: \<open>Inl e\<close> when navigating or reading the
  title raises, otherwise the title and the answers to the two element searches the
  verifiers make (\<open>By.CLASS_NAME "product"\<close> and the CSS selector
  \<open>.breadcrumb, .category, .navigation\<close>), each a count or an exception.
\<close>

record page_view =
  pv_title :: string
  pv_products :: "error + nat"
  pv_nav :: "error + nat"

type_synonym browser = "string \<Rightarrow> error + page_view"

record mapping_info =
  mi_url :: string
  mi_level :: nat
  mi_parent :: "string option"

definition category_mappings :: "(string \<times> mapping_info) list" where
  "category_mappings =
    [(''Food'', \<lparr>mi_url = ''food'', mi_level = 0, mi_parent = None\<rparr>),
     (''Cleaning Supplies'', \<lparr>mi_url = ''cleaning'', mi_level = 0, mi_parent = None\<rparr>),
     (''Personal Care'', \<lparr>mi_url = ''personal-care'', mi_level = 0, mi_parent = None\<rparr>),
     (''Health & Wellness'', \<lparr>mi_url = ''hygiene'', mi_level = 0, mi_parent = None\<rparr>),
     (''Baby Care'', \<lparr>mi_url = ''babycare'', mi_level = 0, mi_parent = None\<rparr>),
     (''Home & Kitchen'', \<lparr>mi_url = ''home-kitchen'', mi_level = 0, mi_parent = None\<rparr>),
     (''Stationery & Office'', \<lparr>mi_url = ''stationery-office'', mi_level = 0, mi_parent = None\<rparr>),
     (''Pet Care'', \<lparr>mi_url = ''pet-care'', mi_level = 0, mi_parent = None\<rparr>),
     (''Toys & Sports'', \<lparr>mi_url = ''toys-sports'', mi_level = 0, mi_parent = None\<rparr>),
     (''Beauty & MakeUp'', \<lparr>mi_url = ''beauty'', mi_level = 0, mi_parent = None\<rparr>),
     (''Fashion & Lifestyle'', \<lparr>mi_url = ''fashion-lifestyle'', mi_level = 0, mi_parent = None\<rparr>),
     (''Vehicle Essentials'', \<lparr>mi_url = ''vehicle-essentials'', mi_level = 0, mi_parent = None\<rparr>),
     (''Qurbani Special'', \<lparr>mi_url = ''qurbani-special'', mi_level = 0, mi_parent = None\<rparr>),
     (''Flash Sales'', \<lparr>mi_url = ''flash-sales'', mi_level = 0, mi_parent = None\<rparr>),
     (''Fruits & Vegetables'', \<lparr>mi_url = ''fruits-vegetables'', mi_level = 1, mi_parent = Some ''Food''\<rparr>),
     (''Meat & Fish'', \<lparr>mi_url = ''meat-fish'', mi_level = 1, mi_parent = Some ''Food''\<rparr>),
     (''Cooking'', \<lparr>mi_url = ''cooking'', mi_level = 1, mi_parent = Some ''Food''\<rparr>),
     (''Dairy & Eggs'', \<lparr>mi_url = ''dairy'', mi_level = 1, mi_parent = Some ''Food''\<rparr>),
     (''Breakfast'', \<lparr>mi_url = ''breakfast'', mi_level = 1, mi_parent = Some ''Food''\<rparr>),
     (''Snacks'', \<lparr>mi_url = ''snacks'', mi_level = 1, mi_parent = Some ''Food''\<rparr>),
     (''Beverages'', \<lparr>mi_url = ''beverages'', mi_level = 1, mi_parent = Some ''Food''\<rparr>),
     (''Baking'', \<lparr>mi_url = ''baking-needs'', mi_level = 1, mi_parent = Some ''Food''\<rparr>),
     (''Frozen & Canned'', \<lparr>mi_url = ''frozen-foods'', mi_level = 1, mi_parent = Some ''Food''\<rparr>),
     (''Rice'', \<lparr>mi_url = ''rices'', mi_level = 2, mi_parent = Some ''Cooking''\<rparr>),
     (''Dal'', \<lparr>mi_url = ''dal-or-lentil'', mi_level = 2, mi_parent = Some ''Cooking''\<rparr>),
     (''Oil'', \<lparr>mi_url = ''oil'', mi_level = 2, mi_parent = Some ''Cooking''\<rparr>),
     (''Spices'', \<lparr>mi_url = ''spices'', mi_level = 2, mi_parent = Some ''Cooking''\<rparr>),
     (''Salt & Sugar'', \<lparr>mi_url = ''salt-sugar'', mi_level = 2, mi_parent = Some ''Cooking''\<rparr>),
     (''Ghee'', \<lparr>mi_url = ''ghee'', mi_level = 2, mi_parent = Some ''Cooking''\<rparr>),
     (''Ready Mix'', \<lparr>mi_url = ''ready-mix'', mi_level = 2, mi_parent = Some ''Cooking''\<rparr>),
     (''Special Ingredients'', \<lparr>mi_url = ''miscellaneous'', mi_level = 2, mi_parent = Some ''Cooking''\<rparr>),
     (''Premium Ingredients'', \<lparr>mi_url = ''premium-ingredients'', mi_level = 2, mi_parent = Some ''Cooking''\<rparr>),
     (''Colors & Flavours'', \<lparr>mi_url = ''colors-flavours'', mi_level = 2, mi_parent = Some ''Cooking''\<rparr>),
     (''Shemai & Suji'', \<lparr>mi_url = ''shemai-suji'', mi_level = 2, mi_parent = Some ''Cooking''\<rparr>)]"

text \<open>
  The test of \<open>extract_and_verify_categories\<close> (final-ai-agent.py):
  \<open>"chaldal" in page_title or has_products or "404" not in page_title\<close>, on the
  lower-cased title.
\<close>

definition is_valid :: "string \<Rightarrow> nat \<Rightarrow> bool" where
  "is_valid page_title n_products =
     (py_in ''chaldal'' page_title \<or> 0 < n_products \<or> \<not> py_in ''404'' page_title)"

text \<open>
  One round of the loop of \<open>extract_and_verify_categories\<close>: \<open>None\<close> when the round
  stores nothing (the page is invalid, or a statement raised and the handler went on
  to the next category), otherwise the entry stored under the lower-cased name.
  \<open>now name\<close> is the clock reading \<open>datetime.now().isoformat()\<close> of that round.
\<close>

definition verify_category ::
  "unicode \<Rightarrow> browser \<Rightarrow> (string \<Rightarrow> timestamp) \<Rightarrow> string \<Rightarrow> mapping_info \<Rightarrow> category_entry option" where
  "verify_category U driver now name info =
     (case driver (BASE_URL @ mi_url info) of
        Inl e \<Rightarrow> None
      | Inr page \<Rightarrow>
          (case pv_products page of
             Inl e \<Rightarrow> None
           | Inr n \<Rightarrow>
               if is_valid (lower U (pv_title page)) n then
                 Some \<lparr>ce_name = name, ce_url = mi_url info, ce_level = mi_level info,
                       ce_parent = mi_parent info, ce_product_count = n,
                       ce_verified = True, ce_verified_at = now name\<rparr>
               else None))"

fun verify_loop ::
  "unicode \<Rightarrow> browser \<Rightarrow> (string \<Rightarrow> timestamp) \<Rightarrow> (string \<times> mapping_info) list \<Rightarrow> categories \<Rightarrow> categories" where
  "verify_loop U driver now [] verified_categories = verified_categories"
| "verify_loop U driver now ((name, info) # rest) verified_categories =
     verify_loop U driver now rest
       (case verify_category U driver now name info of
          None \<Rightarrow> verified_categories
        | Some entry \<Rightarrow> dict_set (lower U name) entry verified_categories)"

text \<open>
  \<open>extract_and_verify_categories\<close> returns the dictionary it has built and writes the
  same dictionary to the cache file, replacing what was there.
\<close>

definition extract_and_verify_categories ::
  "unicode \<Rightarrow> browser \<Rightarrow> (string \<Rightarrow> timestamp) \<Rightarrow> categories" where
  "extract_and_verify_categories U driver now = verify_loop U driver now category_mappings []"

subsection \<open>The stand-alone verifier (extract_verified_categories.py)\<close>

record script_entry =
  se_name :: string
  se_url :: string
  se_level :: nat
  se_full_url :: string
  se_has_products :: bool
  se_verified :: bool

definition script_category_mappings :: "(string \<times> string) list" where
  "script_category_mappings =
    [(''Food'', ''food''),
     (''Fruits & Vegetables'', ''fruits-vegetables''),
     (''Meat & Fish'', ''meat-fish''),
     (''Cooking'', ''cooking''),
     (''Dairy & Eggs'', ''dairy''),
     (''Breakfast'', ''breakfast''),
     (''Snacks'', ''snacks''),
     (''Beverages'', ''beverages''),
     (''Baking'', ''baking-needs''),
     (''Frozen & Canned'', ''frozen-foods''),
     (''Spices'', ''spices''),
     (''Salt & Sugar'', ''salt-sugar''),
     (''Rice'', ''rices''),
     (''Dal or Lentil'', ''dal-or-lentil''),
     (''Ready Mix'', ''ready-mix''),
     (''Shemai & Suji'', ''shemai-suji''),
     (''Special Ingredients'', ''miscellaneous''),
     (''Oil'', ''oil''),
     (''Colors & Flavours'', ''colors-flavours''),
     (''Ghee'', ''ghee''),
     (''Premium Ingredients'', ''premium-ingredients''),
     (''Cleaning Supplies'', ''cleaning''),
     (''Personal Care'', ''personal-care''),
     (''Health & Wellness'', ''hygiene''),
     (''Baby Care'', ''babycare''),
     (''Home & Kitchen'', ''home-kitchen''),
     (''Stationery & Office'', ''stationery-office''),
     (''Pet Care'', ''pet-care''),
     (''Toys & Sports'', ''toys-sports''),
     (''Beauty & MakeUp'', ''beauty''),
     (''Fashion & Lifestyle'', ''fashion-lifestyle''),
     (''Vehicle Essentials'', ''vehicle-essentials''),
     (''Qurbani Special'', ''qurbani-special''),
     (''Flash Sales'', ''flash-sales'')]"

definition category_level :: "string \<Rightarrow> nat" where
  "category_level name =
     (if name \<in> set [''Spices'', ''Salt & Sugar'', ''Rice'', ''Dal or Lentil'', ''Ready Mix'',
                      ''Shemai & Suji'', ''Special Ingredients'', ''Oil'', ''Colors & Flavours'',
                      ''Ghee'', ''Premium Ingredients''] then 2
      else if name \<in> set [''Fruits & Vegetables'', ''Meat & Fish'', ''Cooking'', ''Dairy & Eggs'',
                           ''Breakfast'', ''Snacks'', ''Beverages'', ''Baking'', ''Frozen & Canned'']
      then 1
      else 0)"

text \<open>
  In the script each element search has a \<open>try\<close> of its own, so a search that raises
  counts as nothing found.
\<close>

definition found_some :: "error + nat \<Rightarrow> bool" where
  "found_some r = (case r of Inr n \<Rightarrow> 0 < n | Inl e \<Rightarrow> False)"

definition script_verify_category ::
  "unicode \<Rightarrow> browser \<Rightarrow> string \<Rightarrow> string \<Rightarrow> script_entry option" where
  "script_verify_category U driver name url_suffix =
     (let full_url = BASE_URL @ url_suffix
      in case driver full_url of
           Inl e \<Rightarrow> None
         | Inr page \<Rightarrow>
             (let has_products = found_some (pv_products page);
                  has_category_content = found_some (pv_nav page)
              in if has_products \<or> has_category_content \<or> py_in ''chaldal'' (lower U (pv_title page))
                 then Some \<lparr>se_name = name, se_url = url_suffix, se_level = category_level name,
                            se_full_url = full_url, se_has_products = has_products,
                            se_verified = True\<rparr>
                 else None))"

fun script_verify_loop ::
  "unicode \<Rightarrow> browser \<Rightarrow> (string \<times> string) list \<Rightarrow> (string \<times> script_entry) list \<Rightarrow> (string \<times> script_entry) list" where
  "script_verify_loop U driver [] all_categories = all_categories"
| "script_verify_loop U driver ((name, url_suffix) # rest) all_categories =
     script_verify_loop U driver rest
       (case script_verify_category U driver name url_suffix of
          None \<Rightarrow> all_categories
        | Some entry \<Rightarrow> dict_set (lower U name) entry all_categories)"

definition extract_specific_product_categories ::
  "unicode \<Rightarrow> browser \<Rightarrow> (string \<times> script_entry) list" where
  "extract_specific_product_categories U driver =
     script_verify_loop U driver script_category_mappings []"

section \<open>Product extraction\<close>

record product_data =
  pd_name :: string
  pd_price :: string
  pd_original_price :: string
  pd_discount_percentage :: string
  pd_quantity :: string
  pd_category :: string
  pd_product_url :: "string option"
  pd_image_url :: "string option"
  pd_scraped_url :: string

text \<open>
  The body of the \<open>for i, product in enumerate(products)\<close> loop: \<open>None\<close> when the round
  appends nothing, either through \<open>continue\<close> on an empty name or because a statement
  raised and the handler of the round went on. The two attribute lookups have a bare
  \<open>except\<close> of their own, which keeps the initial empty string.
\<close>

definition attribute_or_empty :: "error + string option \<Rightarrow> string option" where
  "attribute_or_empty r = (case r of Inr v \<Rightarrow> v | Inl e \<Rightarrow> Some '''')"

definition extract_product ::
  "unicode \<Rightarrow> string \<Rightarrow> string \<Rightarrow> element \<Rightarrow> product_data option" where
  "extract_product U category current_url product =
     (case safe_text U (el_name product) of
        Inl e \<Rightarrow> None
      | Inr name \<Rightarrow>
          if name = '''' then None
          else
            (let price_info = extract_price_info U product
             in case safe_text U (el_subText product) of
                  Inl e \<Rightarrow> None
                | Inr quantity \<Rightarrow>
                    Some \<lparr>pd_name = name,
                          pd_price = pi_price price_info,
                          pd_original_price = pi_original_price price_info,
                          pd_discount_percentage = pi_discount_percentage price_info,
                          pd_quantity = quantity,
                          pd_category = category,
                          pd_product_url = attribute_or_empty (el_a_href product),
                          pd_image_url = attribute_or_empty (el_img_src product),
                          pd_scraped_url = current_url\<rparr>))"

fun extract_products ::
  "unicode \<Rightarrow> string \<Rightarrow> string \<Rightarrow> element list \<Rightarrow> product_data list" where
  "extract_products U category current_url [] = []"
| "extract_products U category current_url (product # products) =
     (case extract_product U category current_url product of
        None \<Rightarrow> extract_products U category current_url products
      | Some product_data \<Rightarrow> product_data # extract_products U category current_url products)"

section \<open>Persistence\<close>

text \<open>
  The two tables the scraper writes. Of \<open>products\<close> the columns \<open>description\<close>, \<open>brand\<close>
  and \<open>availability\<close> are left out: no statement of the program writes or reads them.
  \<open>subcategory\<close> is kept, because the table's uniqueness constraint names it. A column
  that may hold \<open>NULL\<close> is an option. Timestamps are the ISO texts SQLite stores, which
  it compares byte by byte. The \<open>id\<close> columns are \<open>AUTOINCREMENT\<close>: a new row gets the
  successor of the largest id the table has ever used, which the store keeps.
  Statements on the store are taken to succeed.
\<close>

record product_row =
  p_id :: nat
  p_name :: string
  p_price :: string
  p_original_price :: string
  p_discount_percentage :: string
  p_quantity :: string
  p_category :: string
  p_subcategory :: "string option"
  p_product_url :: "string option"
  p_image_url :: "string option"
  p_scraped_at :: timestamp
  p_updated_at :: timestamp

record log_row =
  l_id :: nat
  l_category :: string
  l_products_found :: nat
  l_products_saved :: nat
  l_status :: string
  l_error_message :: "string option"
  l_duration_seconds :: pyfloat
  l_scraped_at :: timestamp

record db =
  products_tbl :: "product_row list"
  scraping_logs_tbl :: "log_row list"
  products_seq :: nat
  scraping_logs_seq :: nat

text \<open>
  The clock readings of one run: \<open>datetime_now k\<close> is \<open>datetime.now()\<close> at the \<open>k\<close>-th
  insert, \<open>current_timestamp\<close> is SQLite's \<open>CURRENT_TIMESTAMP\<close>, and the two durations
  are \<open>time.time() - start_time\<close> where the log row and the summary are written.
\<close>

record clock =
  datetime_now :: "nat \<Rightarrow> timestamp"
  current_timestamp :: timestamp
  log_duration :: pyfloat
  msg_duration :: pyfloat

text \<open>
  \<open>init_database\<close> runs three \<open>CREATE TABLE IF NOT EXISTS\<close> statements: the tables of
  the store exist afterwards and no row is touched. The store of the model has its
  tables from the start, so the operation leaves it as it is.
\<close>

definition init_database :: "db \<Rightarrow> db" where
  "init_database d = d"

text \<open>
  \<open>UNIQUE(name, category, subcategory)\<close>: two rows collide when they agree on the three
  columns and none of the three is \<open>NULL\<close> (SQLite counts \<open>NULL\<close>s as distinct).
  \<open>INSERT OR REPLACE\<close> deletes the rows the new one collides with, then inserts it.
  The insert statement of the scraper names nine columns: \<open>id\<close> is generated,
  \<open>subcategory\<close> is left \<open>NULL\<close> and \<open>updated_at\<close> takes its default, the current time.
\<close>

definition unique_conflict :: "product_row \<Rightarrow> product_row \<Rightarrow> bool" where
  "unique_conflict r new =
     (p_name r = p_name new \<and> p_category r = p_category new \<and>
      p_subcategory r \<noteq> None \<and> p_subcategory r = p_subcategory new)"

definition product_row_of :: "nat \<Rightarrow> timestamp \<Rightarrow> timestamp \<Rightarrow> product_data \<Rightarrow> product_row" where
  "product_row_of new_id now sql_now product =
     \<lparr>p_id = new_id,
      p_name = pd_name product,
      p_price = pd_price product,
      p_original_price = pd_original_price product,
      p_discount_percentage = pd_discount_percentage product,
      p_quantity = pd_quantity product,
      p_category = pd_category product,
      p_subcategory = None,
      p_product_url = pd_product_url product,
      p_image_url = pd_image_url product,
      p_scraped_at = now,
      p_updated_at = sql_now\<rparr>"

definition insert_or_replace_product :: "timestamp \<Rightarrow> timestamp \<Rightarrow> product_data \<Rightarrow> db \<Rightarrow> db" where
  "insert_or_replace_product now sql_now product d =
     (let new = product_row_of (Suc (products_seq d)) now sql_now product
      in d\<lparr>products_tbl := filter (\<lambda>r. \<not> unique_conflict r new) (products_tbl d) @ [new],
           products_seq := Suc (products_seq d)\<rparr>)"

fun insert_products :: "clock \<Rightarrow> nat \<Rightarrow> product_data list \<Rightarrow> db \<Rightarrow> db" where
  "insert_products clk k [] d = d"
| "insert_products clk k (product # rest) d =
     insert_products clk (Suc k) rest
       (insert_or_replace_product (datetime_now clk k) (current_timestamp clk) product d)"

definition delete_category :: "string \<Rightarrow> db \<Rightarrow> db" where
  "delete_category category d =
     d\<lparr>products_tbl := filter (\<lambda>r. p_category r \<noteq> category) (products_tbl d)\<rparr>"

definition insert_log ::
  "clock \<Rightarrow> string \<Rightarrow> nat \<Rightarrow> nat \<Rightarrow> string \<Rightarrow> string option \<Rightarrow> db \<Rightarrow> db" where
  "insert_log clk category found saved status error_message d =
     d\<lparr>scraping_logs_tbl := scraping_logs_tbl d @
          [\<lparr>l_id = Suc (scraping_logs_seq d), l_category = category,
            l_products_found = found, l_products_saved = saved, l_status = status,
            l_error_message = error_message, l_duration_seconds = log_duration clk,
            l_scraped_at = current_timestamp clk\<rparr>],
        scraping_logs_seq := Suc (scraping_logs_seq d)\<rparr>"

text \<open>
  The category-replacement step of \<open>scrape_product_data\<close>: the \<open>DELETE\<close> of the
  category's rows followed by the insert loop. \<open>save_products\<close> is the whole body of
  \<open>if products_data:\<close>, which ends with the success row of the log.
\<close>

definition replace_category :: "clock \<Rightarrow> string \<Rightarrow> product_data list \<Rightarrow> db \<Rightarrow> db" where
  "replace_category clk category products_data d =
     insert_products clk 0 products_data (delete_category category d)"

definition save_products :: "clock \<Rightarrow> string \<Rightarrow> nat \<Rightarrow> product_data list \<Rightarrow> db \<Rightarrow> db" where
  "save_products clk category found products_data d =
     insert_log clk category found (length products_data) ''success'' None
       (replace_category clk category products_data d)"

section \<open>The scrape operation\<close>

text \<open>
  What the browser does with a category URL within the wait budget: \<open>Raises msg\<close> when
  an exception with text \<open>msg\<close> leaves the \<open>with get_chrome_driver()\<close> block (driver
  set-up, navigation, a failure of the wait other than its timeout, scrolling or the
  element search), \<open>WaitTimeout\<close> when no product element appears within the budget and
  the wait raises \<open>TimeoutException\<close>, and \<open>Loaded products current_url\<close> otherwise:
  the product elements found after scrolling, and the address the browser is at.
\<close>

datatype page = Raises string | WaitTimeout | Loaded "element list" string

type_synonym site = "string \<Rightarrow> nat \<Rightarrow> page"

definition REQUEST_TIMEOUT :: nat where
  "REQUEST_TIMEOUT = 15"

text \<open>
  The marks that open the summaries, as the bytes the source file holds.
\<close>

definition CROSS_MARK :: string where
  "CROSS_MARK = [CHR 0xC3, CHR 0xA2, CHR 0xC5, CHR 0x92]"

definition CHECK_MARK :: string where
  "CHECK_MARK = [CHR 0xC3, CHR 0xA2, CHR 0xC5, CHR 0x93, CHR 0xE2, CHR 0x80, CHR 0xA6]"

definition PACKAGE_MARK :: string where
  "PACKAGE_MARK = [CHR 0xC3, CHR 0xB0, CHR 0xC5, CHR 0xB8, CHR 0xE2, CHR 0x80, CHR 0x9C, CHR 0xC2, CHR 0xA6]"

definition BULLET_MARK :: string where
  "BULLET_MARK = [CHR 0xC3, CHR 0xA2, CHR 0xE2, CHR 0x82, CHR 0xAC, CHR 0xC2, CHR 0xA2]"

definition scrape_product_data ::
  "unicode \<Rightarrow> categories \<Rightarrow> site \<Rightarrow> clock \<Rightarrow> string \<Rightarrow> db \<Rightarrow> db \<times> string" where
  "scrape_product_data U categories browser clk category d0 =
     (let d = init_database d0;
          url = get_category_url U categories category
      in if url = '''' then
           (d, CROSS_MARK @ '' Could not find URL for category: '' @ category)
         else
           (case browser url REQUEST_TIMEOUT of
              WaitTimeout \<Rightarrow>
                (d, CROSS_MARK @ '' No products found for category: '' @ category)
            | Raises msg \<Rightarrow>
                (insert_log clk category 0 0 ''error'' (Some msg) d,
                 CROSS_MARK @ '' Error scraping '' @ category @ '': '' @ msg)
            | Loaded products current_url \<Rightarrow>
                (let products_data = extract_products U category current_url products;
                     d' = (if products_data \<noteq> []
                           then save_products clk category (length products) products_data d
                           else d)
                 in (d', CHECK_MARK @ '' Successfully scraped '' @ str_nat (length products_data)
                          @ '' products from '' @ category @ '' category in ''
                          @ fmt1f (msg_duration clk) @ '' seconds''))))"

section \<open>Viewing stored products\<close>

text \<open>
  SQLite's \<open>LIKE\<close> compares character by character: \<open>%\<close> matches any run of
  characters, \<open>_\<close> any one character, and every other character matches itself, the
  letters \<open>A\<close> to \<open>Z\<close> of ASCII without regard to case.
\<close>

definition sqlite_tolower :: "char \<Rightarrow> char" where
  "sqlite_tolower c =
     (if 65 \<le> (of_char c :: nat) \<and> (of_char c :: nat) \<le> 90
      then char_of ((of_char c :: nat) + 32) else c)"

fun like_chars :: "string list \<Rightarrow> string list \<Rightarrow> bool" where
  "like_chars [] s = (s = [])"
| "like_chars (p # ps) [] = (p = ''%'' \<and> like_chars ps [])"
| "like_chars (p # ps) (c # cs) =
     (if p = ''%'' then like_chars ps (c # cs) \<or> like_chars (p # ps) cs
      else (p = ''_'' \<or> map sqlite_tolower p = map sqlite_tolower c) \<and> like_chars ps cs)"

definition sql_like :: "string \<Rightarrow> string \<Rightarrow> bool" where
  "sql_like pattern s = like_chars (utf8_chars pattern) (utf8_chars s)"

text \<open>
  \<open>ORDER BY scraped_at DESC\<close>: rows with the larger timestamp text first; rows with
  equal timestamps keep their table order here (SQLite promises no order among them).
  A row is inserted before the first row whose timestamp is not larger than its own,
  and the rows are inserted from the last to the first.
\<close>

fun insert_desc :: "product_row \<Rightarrow> product_row list \<Rightarrow> product_row list" where
  "insert_desc r [] = [r]"
| "insert_desc r (x # xs) =
     (if p_scraped_at x \<le> p_scraped_at r then r # x # xs else x # insert_desc r xs)"

definition order_by_scraped_at_desc :: "product_row list \<Rightarrow> product_row list" where
  "order_by_scraped_at_desc rows = foldr insert_desc rows []"

text \<open>\<open>LIMIT n\<close>: the first \<open>n\<close> rows; a negative \<open>n\<close> is no limit in SQLite.\<close>

definition sql_limit :: "int \<Rightarrow> 'a list \<Rightarrow> 'a list" where
  "sql_limit n rows = (if n < 0 then rows else take (nat n) rows)"

text \<open>Python's \<open>if category:\<close> on an optional string.\<close>

definition truthy :: "string option \<Rightarrow> bool" where
  "truthy category = (case category of None \<Rightarrow> False | Some c \<Rightarrow> c \<noteq> '''')"

text \<open>
  \<open>view_scraped_data\<close> opens the database file as it finds it: it does not call
  \<open>init_database\<close>. \<open>NoTables\<close> is a file in which the tables have not been created.
  The two ways the query raises: the statement names a table that does not exist, or
  the limit is a Python integer that does not fit SQLite's 64-bit \<open>INTEGER\<close>, which
  the \<open>sqlite3\<close> module refuses when it binds the parameter. \<open>str_query_error\<close> is the
  text \<open>str(e)\<close> of the exception.
\<close>

datatype database_file = NoTables | Tables db

datatype query_error = OperationalError | OverflowError

fun str_query_error :: "query_error \<Rightarrow> string" where
  "str_query_error OperationalError = ''no such table: products''"
| "str_query_error OverflowError = ''Python int too large to convert to SQLite INTEGER''"

definition bind_integer :: "int \<Rightarrow> query_error + int" where
  "bind_integer n =
     (if - (2 ^ 63) \<le> n \<and> n < 2 ^ 63 then Inr n else Inl OverflowError)"

text \<open>
  The rows the \<open>WHERE\<close> clause lets through: with a category, those whose category
  is \<open>LIKE\<close> the pattern \<open>f"%{category}%"\<close>; without one, all rows.
\<close>

definition matching_rows :: "db \<Rightarrow> string option \<Rightarrow> product_row list" where
  "matching_rows d category =
     (if truthy category
      then filter (\<lambda>r. sql_like (''%'' @ the category @ ''%'') (p_category r)) (products_tbl d)
      else products_tbl d)"

definition select_products ::
  "database_file \<Rightarrow> string option \<Rightarrow> int \<Rightarrow> query_error + product_row list" where
  "select_products file category limit =
     (case file of
        NoTables \<Rightarrow> Inl OperationalError
      | Tables d \<Rightarrow>
          (case bind_integer limit of
             Inl e \<Rightarrow> Inl e
           | Inr n \<Rightarrow>
               Inr (sql_limit n (order_by_scraped_at_desc (matching_rows d category)))))"

definition product_line :: "product_row \<Rightarrow> string" where
  "product_line r =
     ''  '' @ BULLET_MARK @ '' '' @ p_name r @ '' - '' @ p_price r @ '' ('' @ p_quantity r
       @ '') ['' @ p_category r @ ''] - '' @ p_scraped_at r @ [CHR 0x0A]"

definition view_scraped_data ::
  "database_file \<Rightarrow> string option \<Rightarrow> int \<Rightarrow> database_file \<times> string" where
  "view_scraped_data file category limit =
     (case select_products file category limit of
        Inl e \<Rightarrow> (file, CROSS_MARK @ '' Error viewing data: '' @ str_query_error e)
      | Inr products \<Rightarrow>
          if products = [] then
            (file, CROSS_MARK @ '' No products found''
                     @ (if truthy category then '' for category: '' @ the category else ''''))
          else
            (file, (if truthy category
                    then PACKAGE_MARK @ '' Products from '' @ [CHR 0x27] @ the category @ [CHR 0x27]
                           @ '' category ('' @ str_nat (length products) @ '' items):'' @ [CHR 0x0A]
                    else PACKAGE_MARK @ '' Recent Products ('' @ str_nat (length products)
                           @ '' items):'' @ [CHR 0x0A])
                   @ concat (map product_line products)))"

section \<open>Notions used to state the properties\<close>

text \<open>
  Round \<open>k\<close> of the scroll loop (rounds count from 1) observes no change when the height
  read in it equals the height read before it. A plateau ends at round \<open>k\<close> when the
  rounds \<open>k - 2\<close>, \<open>k - 1\<close> and \<open>k\<close> all observe no change. \<open>run heights k\<close> counts
  the rounds without change that end at round \<open>k\<close>.
\<close>

definition no_change :: "(nat \<Rightarrow> int) \<Rightarrow> nat \<Rightarrow> bool" where
  "no_change heights k = (0 < k \<and> heights k = heights (k - 1))"

definition plateau :: "(nat \<Rightarrow> int) \<Rightarrow> nat \<Rightarrow> bool" where
  "plateau heights k =
     (3 \<le> k \<and> no_change heights k \<and> no_change heights (k - 1) \<and> no_change heights (k - 2))"

fun run :: "(nat \<Rightarrow> int) \<Rightarrow> nat \<Rightarrow> nat" where
  "run heights 0 = 0"
| "run heights (Suc k) = (if heights (Suc k) = heights k then Suc (run heights k) else 0)"

text \<open>Example data for the closed instances below.\<close>

text \<open>
  An excerpt of the Unicode character database: the white space of \<open>str.isspace\<close>,
  the decimal digits of three scripts (Basic Latin, Arabic-Indic \<open>U+0660..U+0669\<close>,
  Bengali \<open>U+09E6..U+09EF\<close>) and the lower-case mapping of the capital letters of
  Basic Latin and Latin-1 (\<open>U+00C0..U+00DE\<close> without the multiplication sign).
\<close>

definition example_isspace :: "nat \<Rightarrow> bool" where
  "example_isspace n =
     (n \<in> set [9, 10, 11, 12, 13, 28, 29, 30, 31, 32, 133, 160, 5760, 8232, 8233, 8239,
               8287, 12288] \<or> (8192 \<le> n \<and> n \<le> 8202))"

definition example_decimal :: "nat \<Rightarrow> nat option" where
  "example_decimal n =
     (if 48 \<le> n \<and> n \<le> 57 then Some (n - 48)
      else if 1632 \<le> n \<and> n \<le> 1641 then Some (n - 1632)
      else if 2534 \<le> n \<and> n \<le> 2543 then Some (n - 2534)
      else None)"

fun example_lower_char :: "nat list \<Rightarrow> nat list" where
  "example_lower_char [a] = (if 65 \<le> a \<and> a \<le> 90 then [a + 32] else [a])"
| "example_lower_char [a, b] =
     (if a = 195 \<and> 128 \<le> b \<and> b \<le> 158 \<and> b \<noteq> 151 then [a, b + 32] else [a, b])"
| "example_lower_char bytes = bytes"

definition example_lower :: "string \<Rightarrow> string" where
  "example_lower s =
     concat (map (\<lambda>g. map char_of (example_lower_char (map of_char g))) (utf8_chars s))"

definition example_unicode :: unicode where
  "example_unicode =
     \<lparr>isspace = example_isspace, decimal = example_decimal, lower = example_lower\<rparr>"

definition example_categories :: categories where
  "example_categories =
     [(''rice'', \<lparr>ce_name = ''Rice'', ce_url = ''rices'', ce_level = 2,
                  ce_parent = Some ''Cooking'', ce_product_count = 40, ce_verified = True,
                  ce_verified_at = ''2025-01-05T10:00:00''\<rparr>),
      (''oil'', \<lparr>ce_name = ''Oil'', ce_url = ''oil'', ce_level = 2,
                 ce_parent = Some ''Cooking'', ce_product_count = 25, ce_verified = True,
                 ce_verified_at = ''2025-01-05T10:00:03''\<rparr>)]"

text \<open>
  A query outside Basic Latin: the French \<open>EPICES Fines\<close> with its capital E acute
  (\<open>U+00C9\<close>), and what \<open>str.lower()\<close> makes of it.
\<close>

definition epices_fines :: string where
  "epices_fines = [CHR 0xC3, CHR 0x89] @ ''PICES Fines''"

definition epices_fines_lower :: string where
  "epices_fines_lower = [CHR 0xC3, CHR 0xA9] @ ''pices fines''"

definition empty_db :: db where
  "empty_db = \<lparr>products_tbl = [], scraping_logs_tbl = [], products_seq = 0, scraping_logs_seq = 0\<rparr>"

definition example_clock :: clock where
  "example_clock =
     \<lparr>datetime_now = (\<lambda>k. ''2025-01-05 10:00:0'' @ str_nat (k mod 10)),
      current_timestamp = ''2025-01-05 04:00:00'',
      log_duration = Finite False 12,
      msg_duration = Finite False 12\<rparr>"

text \<open>
  \<open>category_rows category d\<close> are the rows of \<open>products\<close> with that category, in table
  order. \<open>scraped_columns\<close> are the values the scraper supplies for a row (name, price,
  original price, discount percentage, quantity, category, product URL, image URL);
  the remaining columns are the generated \<open>id\<close>, the \<open>NULL\<close> subcategory and the two
  timestamps. \<open>new_rows clk k last_id products_data\<close> are the rows the insert loop
  builds when it starts at insert number \<open>k\<close> with \<open>last_id\<close> the largest id used so far.
\<close>

definition category_rows :: "string \<Rightarrow> db \<Rightarrow> product_row list" where
  "category_rows category d = filter (\<lambda>r. p_category r = category) (products_tbl d)"

definition scraped_columns ::
  "product_row \<Rightarrow> string \<times> string \<times> string \<times> string \<times> string \<times> string \<times> string option \<times> string option" where
  "scraped_columns r =
     (p_name r, p_price r, p_original_price r, p_discount_percentage r, p_quantity r,
      p_category r, p_product_url r, p_image_url r)"

definition data_columns ::
  "product_data \<Rightarrow> string \<times> string \<times> string \<times> string \<times> string \<times> string \<times> string option \<times> string option" where
  "data_columns p =
     (pd_name p, pd_price p, pd_original_price p, pd_discount_percentage p, pd_quantity p,
      pd_category p, pd_product_url p, pd_image_url p)"

fun new_rows :: "clock \<Rightarrow> nat \<Rightarrow> nat \<Rightarrow> product_data list \<Rightarrow> product_row list" where
  "new_rows clk k last_id [] = []"
| "new_rows clk k last_id (product # rest) =
     product_row_of (Suc last_id) (datetime_now clk k) (current_timestamp clk) product
       # new_rows clk (Suc k) (Suc last_id) rest"

definition rice_element :: element where
  "rice_element =
     \<lparr>el_name = Inr ''Miniket Rice'', el_discountedPrice = Inl NoSuchElementException,
      el_originalPrice = Inl NoSuchElementException, el_price = Inr ''Tk 95'',
      el_subText = Inr ''1 kg'', el_a_href = Inr (Some ''https://chaldal.com/miniket-rice''),
      el_img_src = Inr (Some ''https://chaldal.com/miniket-rice.png'')\<rparr>"




definition nameless_element :: element where
  "nameless_element =
     \<lparr>el_name = Inl NoSuchElementException, el_discountedPrice = Inl NoSuchElementException,
      el_originalPrice = Inl NoSuchElementException, el_price = Inr ''Tk 40'',
      el_subText = Inr ''500 gm'', el_a_href = Inl NoSuchElementException,
      el_img_src = Inl NoSuchElementException\<rparr>"

text \<open>An element whose name text is one ideographic space (\<open>U+3000\<close>) and nothing else.\<close>

definition ideographic_space :: string where
  "ideographic_space = [CHR 0xE3, CHR 0x80, CHR 0x80]"

definition blank_name_element :: element where
  "blank_name_element =
     \<lparr>el_name = Inr ideographic_space, el_discountedPrice = Inl NoSuchElementException,
      el_originalPrice = Inl NoSuchElementException, el_price = Inr ''Tk 40'',
      el_subText = Inr ''500 gm'', el_a_href = Inl NoSuchElementException,
      el_img_src = Inl NoSuchElementException\<rparr>"

definition bare_element :: element where
  "bare_element =
     \<lparr>el_name = Inr ''Nazirshail Rice'', el_discountedPrice = Inl NoSuchElementException,
      el_originalPrice = Inl NoSuchElementException, el_price = Inl NoSuchElementException,
      el_subText = Inl NoSuchElementException, el_a_href = Inl NoSuchElementException,
      el_img_src = Inl NoSuchElementException\<rparr>"

definition example_db :: db where
  "example_db =
     \<lparr>products_tbl =
        [\<lparr>p_id = 1, p_name = ''Soyabean Oil'', p_price = ''Tk 180'', p_original_price = '''',
          p_discount_percentage = '''', p_quantity = ''1 ltr'', p_category = ''oil'',
          p_subcategory = None, p_product_url = Some '''', p_image_url = Some '''',
          p_scraped_at = ''2025-01-04 09:00:00.000001'', p_updated_at = ''2025-01-04 03:00:00''\<rparr>],
      scraping_logs_tbl =
        [\<lparr>l_id = 1, l_category = ''oil'', l_products_found = 1, l_products_saved = 1,
          l_status = ''success'', l_error_message = None, l_duration_seconds = Finite False 9,
          l_scraped_at = ''2025-01-04 03:00:00''\<rparr>],
      products_seq = 1, scraping_logs_seq = 1\<rparr>"

definition later_clock :: clock where
  "later_clock =
     \<lparr>datetime_now = (\<lambda>k. ''2025-01-06 18:30:0'' @ str_nat (k mod 10)),
      current_timestamp = ''2025-01-06 12:30:00'',
      log_duration = Finite False 11,
      msg_duration = Finite False 11\<rparr>"

text \<open>
  The scenario of the query: ten rows of category "rice" and three of category "dal",
  scraped one after the other.
\<close>

definition scenario_row :: "string \<Rightarrow> nat \<Rightarrow> product_row" where
  "scenario_row category k =
     \<lparr>p_id = Suc k, p_name = category @ '' no. '' @ str_nat k, p_price = ''Tk 60'',
      p_original_price = '''', p_discount_percentage = '''', p_quantity = ''1 kg'',
      p_category = category, p_subcategory = None, p_product_url = Some '''',
      p_image_url = Some '''',
      p_scraped_at = ''2025-01-05 10:00:'' @ str_nat (10 + k),
      p_updated_at = ''2025-01-05 04:00:00''\<rparr>"

definition scenario_db :: db where
  "scenario_db =
     \<lparr>products_tbl = map (scenario_row ''rice'') [0..<10] @ map (scenario_row ''dal'') [10..<13],
      scraping_logs_tbl = [], products_seq = 13, scraping_logs_seq = 0\<rparr>"

text \<open>
  The classification the specification gives for a candidate's page: valid when the
  title contains the brand token, or a product item is present, or navigation markers
  are present. \<open>agent_valid\<close> is the classification \<open>extract_and_verify_categories\<close>
  makes of a page it could read.
\<close>

definition spec_valid :: "unicode \<Rightarrow> page_view \<Rightarrow> bool" where
  "spec_valid U page =
     (py_in ''chaldal'' (lower U (pv_title page)) \<or> found_some (pv_products page) \<or>
      found_some (pv_nav page))"

definition agent_valid :: "unicode \<Rightarrow> page_view \<Rightarrow> bool" where
  "agent_valid U page =
     (case pv_products page of
        Inl e \<Rightarrow> False
      | Inr n \<Rightarrow> py_in ''chaldal'' (lower U (pv_title page)) \<or> 0 < n \<or>
                 \<not> py_in ''404'' (lower U (pv_title page)))"

definition rice_page :: page_view where
  "rice_page = \<lparr>pv_title = ''Rice - Chaldal'', pv_products = Inr 40, pv_nav = Inr 1\<rparr>"

definition not_found_page :: page_view where
  "not_found_page = \<lparr>pv_title = ''Page Not Found'', pv_products = Inr 0, pv_nav = Inr 0\<rparr>"

definition error_page_with_nav :: page_view where
  "error_page_with_nav = \<lparr>pv_title = ''404'', pv_products = Inr 0, pv_nav = Inr 2\<rparr>"

definition rice_only_browser :: browser where
  "rice_only_browser url =
     (if url = ''https://chaldal.com/rices'' then Inr rice_page
      else Inl (WebDriverException ''timeout''))"

definition example_now :: "string \<Rightarrow> timestamp" where
  "example_now name = ''2025-01-05T10:00:00''"

section \<open>Facts about the store operations\<close>

lemma partial_match_prefix: "\<exists>path. partial_match U categories category_name = BASE_URL @ path"
  by (induction U categories category_name rule: partial_match.induct) simp_all

lemma get_category_url_prefix:
  "\<exists>path. get_category_url U categories category_name = BASE_URL @ path"
proof (cases "map_of categories (lower U category_name)")
  case None
  then show ?thesis
    using partial_match_prefix[of U categories category_name] by (simp add: get_category_url_def)
next
  case (Some data)
  then show ?thesis by (simp add: get_category_url_def)
qed

lemma get_category_url_nonempty: "get_category_url U categories category_name \<noteq> ''''"
  using get_category_url_prefix[of U categories category_name] by (auto simp: BASE_URL_def)

lemma no_conflict_with_new:
  "\<not> unique_conflict r (product_row_of new_id now sql_now product)"
  by (auto simp: unique_conflict_def product_row_of_def)

lemma insert_or_replace_product_tbl:
  "products_tbl (insert_or_replace_product now sql_now product d) =
     products_tbl d @ [product_row_of (Suc (products_seq d)) now sql_now product]"
  "products_seq (insert_or_replace_product now sql_now product d) = Suc (products_seq d)"
  "scraping_logs_tbl (insert_or_replace_product now sql_now product d) = scraping_logs_tbl d"
  "scraping_logs_seq (insert_or_replace_product now sql_now product d) = scraping_logs_seq d"
  by (simp_all add: insert_or_replace_product_def Let_def no_conflict_with_new)

lemma insert_products_tbl:
  "products_tbl (insert_products clk k products_data d) =
     products_tbl d @ new_rows clk k (products_seq d) products_data"
  by (induction products_data arbitrary: k d) (simp_all add: insert_or_replace_product_tbl)

lemma insert_products_seq:
  "products_seq (insert_products clk k products_data d) = products_seq d + length products_data"
  by (induction products_data arbitrary: k d) (simp_all add: insert_or_replace_product_tbl)

lemma insert_products_logs:
  "scraping_logs_tbl (insert_products clk k products_data d) = scraping_logs_tbl d"
  "scraping_logs_seq (insert_products clk k products_data d) = scraping_logs_seq d"
  by (induction products_data arbitrary: k d) (simp_all add: insert_or_replace_product_tbl)

lemma new_rows_columns:
  "map scraped_columns (new_rows clk k last_id products_data) = map data_columns products_data"
  by (induction products_data arbitrary: k last_id)
     (simp_all add: scraped_columns_def data_columns_def product_row_of_def)

lemma new_rows_category:
  "\<forall>p \<in> set products_data. pd_category p = category \<Longrightarrow>
   filter (\<lambda>r. p_category r = category) (new_rows clk k last_id products_data) =
     new_rows clk k last_id products_data"
  by (induction products_data arbitrary: k last_id) (simp_all add: product_row_of_def)

lemma new_rows_other_category:
  "\<forall>p \<in> set products_data. pd_category p = category \<Longrightarrow> other \<noteq> category \<Longrightarrow>
   filter (\<lambda>r. p_category r = other) (new_rows clk k last_id products_data) = []"
  by (induction products_data arbitrary: k last_id) (simp_all add: product_row_of_def)

lemma length_new_rows: "length (new_rows clk k last_id products_data) = length products_data"
  by (induction products_data arbitrary: k last_id) simp_all

lemma replace_category_tbl:
  "products_tbl (replace_category clk category products_data d) =
     filter (\<lambda>r. p_category r \<noteq> category) (products_tbl d)
       @ new_rows clk 0 (products_seq d) products_data"
  "products_seq (replace_category clk category products_data d) =
     products_seq d + length products_data"
  "scraping_logs_tbl (replace_category clk category products_data d) = scraping_logs_tbl d"
  "scraping_logs_seq (replace_category clk category products_data d) = scraping_logs_seq d"
  by (simp_all add: replace_category_def delete_category_def insert_products_tbl
        insert_products_seq insert_products_logs)

lemma category_rows_replace_category:
  "\<forall>p \<in> set products_data. pd_category p = category \<Longrightarrow>
   category_rows category (replace_category clk category products_data d) =
     new_rows clk 0 (products_seq d) products_data"
  by (simp add: category_rows_def replace_category_tbl new_rows_category)

lemma category_rows_replace_other:
  "\<forall>p \<in> set products_data. pd_category p = category \<Longrightarrow> other \<noteq> category \<Longrightarrow>
   category_rows other (replace_category clk category products_data d) = category_rows other d"
proof -
  assume a: "\<forall>p \<in> set products_data. pd_category p = category" and b: "other \<noteq> category"
  have "filter (\<lambda>r. p_category r = other) (filter (\<lambda>r. p_category r \<noteq> category) (products_tbl d))
        = filter (\<lambda>r. p_category r = other) (products_tbl d)"
    using b by (auto intro: filter_cong)
  then show ?thesis
    using new_rows_other_category[OF a b, of clk 0 "products_seq d"]
    by (simp add: category_rows_def replace_category_tbl)
qed

lemma save_products_tbl:
  "products_tbl (save_products clk category found products_data d) =
     products_tbl (replace_category clk category products_data d)"
  "scraping_logs_tbl (save_products clk category found products_data d) =
     scraping_logs_tbl d @
       [\<lparr>l_id = Suc (scraping_logs_seq d), l_category = category, l_products_found = found,
         l_products_saved = length products_data, l_status = ''success'',
         l_error_message = None, l_duration_seconds = log_duration clk,
         l_scraped_at = current_timestamp clk\<rparr>]"
  by (simp_all add: save_products_def insert_log_def replace_category_tbl)

lemma extract_product_name:
  "extract_product U category current_url product = Some p \<Longrightarrow>
   pd_name p \<noteq> '''' \<and> pd_category p = category \<and> safe_text U (el_name product) = Inr (pd_name p)"
  by (auto simp: extract_product_def Let_def split: sum.splits if_splits)

lemma extract_products_names:
  "p \<in> set (extract_products U category current_url products) \<Longrightarrow>
   pd_name p \<noteq> '''' \<and> pd_category p = category"
  by (induction products) (auto split: option.splits dest: extract_product_name)

lemma extract_products_append:
  "extract_products U category current_url (xs @ ys) =
     extract_products U category current_url xs @ extract_products U category current_url ys"
  by (induction xs) (simp_all split: option.splits)

lemma extract_products_length:
  "length (extract_products U category current_url products) \<le> length products"
  by (induction products) (simp_all split: option.splits)

section \<open>Checks of the floating-point model\<close>

lemma pow2_pos: "0 < pow2 k"
  by (simp add: pow2_def)

lemma bitlen_nat_numeral:
  "bitlen_nat (numeral (Num.Bit0 n)) = Suc (bitlen_nat (numeral n))"
  "bitlen_nat (numeral (Num.Bit1 n)) = Suc (bitlen_nat (numeral n))"
  "bitlen_nat 1 = 1" "bitlen_nat 0 = 0" "bitlen_nat (Suc 0) = 1"
  by (subst bitlen_nat.simps, simp; simp add: bitlen_nat.simps)+

lemmas float_eval = round_double_def floor_log2_def bitlen_nat_numeral pow2_def
  round_half_even_def Let_def

lemma bitlen_nat_bounds:
  "0 < n \<Longrightarrow> 2 ^ (bitlen_nat n - 1) \<le> n \<and> n < 2 ^ bitlen_nat n"
proof (induction n rule: bitlen_nat.induct)
  case (1 n)
  show ?case
  proof (cases "n div 2 = 0")
    case True
    with "1.prems" have "n = 1" by presburger
    then show ?thesis
      by (simp add: bitlen_nat.simps[of "Suc 0"] bitlen_nat.simps[of 0])
  next
    case False
    with "1.IH" "1.prems" have ih: "2 ^ (bitlen_nat (n div 2) - 1) \<le> n div 2"
      "n div 2 < 2 ^ bitlen_nat (n div 2)"
      by simp_all
    have pos: "0 < bitlen_nat (n div 2)"
      using False by (subst bitlen_nat.simps) simp
    have b: "bitlen_nat n = Suc (bitlen_nat (n div 2))"
      using "1.prems" by (subst bitlen_nat.simps) simp
    have "2 ^ (bitlen_nat n - 1) = 2 * 2 ^ (bitlen_nat (n div 2) - 1)"
      using pos b by (cases "bitlen_nat (n div 2)") simp_all
    also have "\<dots> \<le> 2 * (n div 2)" using ih(1) by simp
    also have "\<dots> \<le> n" by simp
    finally have l: "2 ^ (bitlen_nat n - 1) \<le> n" .
    have "n < 2 * (n div 2) + 2" by presburger
    also have "\<dots> \<le> 2 * 2 ^ bitlen_nat (n div 2)" using ih(2) by simp
    finally have "n < 2 ^ bitlen_nat n" using b by simp
    with l show ?thesis by simp
  qed
qed

lemma bitlen_nat_pos: "0 < n \<Longrightarrow> 0 < bitlen_nat n"
  by (subst bitlen_nat.simps) simp

text \<open>\<open>floor_log2 m\<close> is the binary exponent of a positive \<open>m\<close>.\<close>

lemma floor_log2_correct:
  assumes "0 < m"
  shows "pow2 (floor_log2 m) \<le> m \<and> m < pow2 (floor_log2 m + 1)"
proof (cases "1 \<le> m")
  case True
  let ?n = "nat \<lfloor>m\<rfloor>"
  have n: "0 < ?n" using True by simp
  have fl: "floor_log2 m = int (bitlen_nat ?n) - 1"
    using True by (simp add: floor_log2_def)
  from bitlen_nat_bounds[OF n] have b1: "2 ^ (bitlen_nat ?n - 1) \<le> ?n" and b2: "?n < 2 ^ bitlen_nat ?n"
    by simp_all
  have pos: "0 < bitlen_nat ?n" by (rule bitlen_nat_pos[OF n])
  have "(2::rat) ^ (bitlen_nat ?n - 1) = of_nat (2 ^ (bitlen_nat ?n - 1))" by simp
  also have "\<dots> \<le> of_nat ?n" using b1 by (simp only: of_nat_le_iff)
  also have "\<dots> \<le> m" using True by (simp add: of_nat_nat)
  finally have l: "(2::rat) ^ (bitlen_nat ?n - 1) \<le> m" .
  have "Suc ?n \<le> 2 ^ bitlen_nat ?n" using b2 by (simp only: Suc_le_eq)
  then have "(of_nat (Suc ?n) :: rat) \<le> of_nat (2 ^ bitlen_nat ?n)" by (simp only: of_nat_le_iff)
  moreover have "m < of_nat (Suc ?n)"
    using True by (simp add: of_nat_nat) linarith
  ultimately have u: "m < 2 ^ bitlen_nat ?n" by simp
  have e1: "pow2 (floor_log2 m) = 2 ^ (bitlen_nat ?n - 1)"
    using pos by (simp add: fl pow2_def nat_diff_distrib)
  have e2: "pow2 (floor_log2 m + 1) = 2 ^ bitlen_nat ?n"
    by (simp add: fl pow2_def)
  from l u show ?thesis by (simp add: e1 e2)
next
  case False
  let ?N = "nat \<lceil>1 / m\<rceil>"
  let ?k = "bitlen_nat (?N - 1)"
  have inv: "1 < 1 / m" using False assms by simp
  have c1: "(1::rat) < of_int \<lceil>1 / m\<rceil>"
    using inv le_of_int_ceiling[of "1 / m"] by linarith
  then have c2: "1 < \<lceil>1 / m\<rceil>" by simp
  then have N2: "2 \<le> ?N" by linarith
  then have n: "0 < ?N - 1" by linarith
  have Nint: "(of_nat ?N :: rat) = of_int \<lceil>1 / m\<rceil>"
    using c2 by (simp add: of_nat_nat)
  have fl: "floor_log2 m = - int ?k"
    using False by (simp add: floor_log2_def)
  from bitlen_nat_bounds[OF n] have b1: "2 ^ (?k - 1) \<le> ?N - 1" and b2: "?N - 1 < 2 ^ ?k"
    by simp_all
  have pos: "0 < ?k" by (rule bitlen_nat_pos[OF n])
  have Nle: "?N \<le> 2 ^ ?k" using b2 by linarith
  have "1 / m \<le> of_int \<lceil>1 / m\<rceil>" by simp
  also have "\<dots> = of_nat ?N" by (simp only: Nint)
  also have "\<dots> \<le> of_nat (2 ^ ?k)" using Nle by (simp only: of_nat_le_iff)
  finally have "1 / m \<le> 2 ^ ?k" by simp
  then have l: "1 / 2 ^ ?k \<le> m"
    using assms by (simp add: field_simps)
  have lt: "of_int \<lceil>1 / m\<rceil> - 1 < 1 / m" by linarith
  have "(of_nat (?N - 1) :: rat) = of_nat ?N - 1"
    using N2 by (simp add: of_nat_diff)
  then have d: "(of_nat (?N - 1) :: rat) = of_int \<lceil>1 / m\<rceil> - 1"
    by (simp only: Nint)
  have "(of_nat (2 ^ (?k - 1)) :: rat) \<le> of_nat (?N - 1)"
    using b1 by (simp only: of_nat_le_iff)
  with d lt have "(of_nat (2 ^ (?k - 1)) :: rat) < 1 / m" by linarith
  then have "2 ^ (?k - 1) < 1 / m" by simp
  then have u: "m < 1 / 2 ^ (?k - 1)"
    using assms by (simp add: field_simps)
  have e1: "pow2 (floor_log2 m) = 1 / 2 ^ ?k"
    by (simp add: fl pow2_def)
  have e2: "pow2 (floor_log2 m + 1) = 1 / 2 ^ (?k - 1)"
    using pos by (cases ?k) (simp_all add: fl pow2_def nat_diff_distrib)
  from l u show ?thesis by (simp add: e1 e2)
qed

lemma round_half_even_nearest: "\<bar>of_int (round_half_even q) - q\<bar> \<le> 1 / 2"
proof -
  define f where "f = \<lfloor>q\<rfloor>"
  define d where "d = q - of_int f"
  have fq: "of_int f \<le> q" "q < of_int f + 1"
    unfolding f_def by linarith+
  have r: "round_half_even q =
      (if d < 1 / 2 then f else if 1 / 2 < d then f + 1 else if even f then f else f + 1)"
    by (simp add: round_half_even_def Let_def f_def d_def)
  consider "d < 1 / 2" | "1 / 2 < d" | "d = 1 / 2" by linarith
  then show ?thesis
  proof cases
    case 1
    then have "round_half_even q = f" by (simp add: r)
    with 1 fq show ?thesis unfolding d_def by simp
  next
    case 2
    then have e: "round_half_even q = f + 1" by (simp add: r)
    have "\<bar>of_int (f + 1) - q\<bar> \<le> 1 / 2"
      using 2 fq unfolding d_def by simp
    with e show ?thesis by simp
  next
    case 3
    then have "round_half_even q = f \<or> round_half_even q = f + 1" by (simp add: r)
    then show ?thesis
    proof
      assume "round_half_even q = f"
      with 3 show ?thesis unfolding d_def by simp
    next
      assume e: "round_half_even q = f + 1"
      have "\<bar>of_int (f + 1) - q\<bar> \<le> 1 / 2"
        using 3 unfolding d_def by simp
      with e show ?thesis by simp
    qed
  qed
qed

text \<open>
  A finite result of \<open>round_double\<close> is a whole number of units in the last place of
  the binade of \<open>m\<close> (the exponent is held at \<open>-1022\<close> for subnormal values), and it is
  at most half such a unit away from \<open>m\<close>.
\<close>

lemma round_double_nearest:
  assumes "0 < m" and "round_double s m = Finite s' r"
  shows "s' = s \<and>
         (\<exists>n. r = of_int n * pow2 (max (floor_log2 m) (- 1022) - 52)) \<and>
         \<bar>r - m\<bar> \<le> pow2 (max (floor_log2 m) (- 1022) - 52) / 2"
proof -
  define ulp where "ulp = pow2 (max (floor_log2 m) (- 1022) - 52)"
  define a where "a = (of_int (round_half_even (m / ulp)) :: rat)"
  have u: "0 < ulp" unfolding ulp_def by (rule pow2_pos)
  from assms have r: "r = a * ulp" and s: "s' = s"
    by (auto simp: round_double_def Let_def ulp_def a_def split: if_splits)
  have "r - m = (a - m / ulp) * ulp"
    using u by (simp add: r field_simps)
  then have "\<bar>r - m\<bar> = \<bar>a - m / ulp\<bar> * \<bar>ulp\<bar>"
    by (simp only: abs_mult)
  also have "\<dots> = \<bar>a - m / ulp\<bar> * ulp"
    using u by simp
  also have "\<dots> \<le> (1 / 2) * ulp"
    using round_half_even_nearest[of "m / ulp"] u
    unfolding a_def by (intro mult_right_mono) simp_all
  finally have "\<bar>r - m\<bar> \<le> ulp / 2" by simp
  moreover have "\<exists>n. r = of_int n * ulp"
    unfolding r a_def by blast
  ultimately show ?thesis
    using s unfolding ulp_def by blast
qed

text \<open>The float nearest to one tenth, and two values that need no rounding.\<close>

lemma round_double_examples:
  "round_double False 100 = Finite False 100"
  "round_double True (1 / 4) = Finite True (1 / 4)"
  by (simp_all add: float_eval)

lemma round_double_tenth:
  "round_double False (1 / 10) = Finite False (3602879701896397 / 36028797018963968)"
proof -
  have f: "\<lfloor>(36028797018963968::rat) / 5\<rfloor> = 7205759403792793"
    by (rule floor_unique) simp_all
  show ?thesis
    by (simp add: float_eval f)
qed

section \<open>Evaluating the character operations\<close>

lemmas char_eval = re_sub_non_numeric_def is_digit_def digit_val_def code_point_def
  is_continuation_def example_unicode_def example_decimal_def example_isspace_def strip_def
  is_space_def

lemma lower_example_unicode: "lower example_unicode = example_lower"
  by (simp add: example_unicode_def)

lemma concat_utf8_chars: "concat (utf8_chars s) = s"
  by (induction s) (auto split: list.splits)

lemma lower_examples:
  "lower example_unicode ''Rice'' = ''rice''"
  "lower example_unicode ''Basmati Rice'' = ''basmati rice''"
  "lower example_unicode ''Frozen Peas'' = ''frozen peas''"
  "lower example_unicode epices_fines = epices_fines_lower"
  unfolding lower_example_unicode by code_simp+


section \<open>The scroll loop is bounded and stops at the first plateau\<close>

lemma run_plateau: "(3 \<le> run heights k) = plateau heights k"
proof (cases k)
  case 0
  then show ?thesis by (simp add: plateau_def)
next
  case (Suc a)
  show ?thesis
  proof (cases a)
    case 0
    with Suc show ?thesis by (simp add: plateau_def)
  next
    case (Suc b)
    note b = this
    show ?thesis
    proof (cases b)
      case 0
      with b \<open>k = Suc a\<close> show ?thesis by (simp add: plateau_def)
    next
      case (Suc c)
      with b \<open>k = Suc a\<close> show ?thesis
        by (auto simp: plateau_def no_change_def)
    qed
  qed
qed

lemma scroll_loop_stop:
  "\<not> (int c < m \<and> nc < 3) \<Longrightarrow> scroll_loop h m l c nc = c"
  by (subst scroll_loop.simps) auto

lemma scroll_loop_step:
  "int c < m \<Longrightarrow> nc < 3 \<Longrightarrow>
   scroll_loop h m l c nc =
   scroll_loop h m (h (Suc c)) (Suc c) (if h (Suc c) = l then nc + 1 else 0)"
  by (subst scroll_loop.simps) (simp add: Let_def)

lemma scroll_loop_inv:
  "no_change_count = run heights scroll_count \<Longrightarrow> last_height = heights scroll_count \<Longrightarrow>
   scroll_count \<le> scroll_loop heights max_scrolls last_height scroll_count no_change_count \<and>
   (scroll_loop heights max_scrolls last_height scroll_count no_change_count \<le> nat max_scrolls \<or>
    scroll_loop heights max_scrolls last_height scroll_count no_change_count = scroll_count) \<and>
   (\<forall>j. scroll_count \<le> j \<and> j < scroll_loop heights max_scrolls last_height scroll_count no_change_count
        \<longrightarrow> run heights j < 3) \<and>
   \<not> (int (scroll_loop heights max_scrolls last_height scroll_count no_change_count) < max_scrolls \<and>
      run heights (scroll_loop heights max_scrolls last_height scroll_count no_change_count) < 3)"
proof (induction heights max_scrolls last_height scroll_count no_change_count rule: scroll_loop.induct)
  case (1 heights max_scrolls last_height scroll_count no_change_count)
  show ?case
  proof (cases "int scroll_count < max_scrolls \<and> no_change_count < 3")
    case False
    with "1.prems" show ?thesis by (simp add: scroll_loop_stop)
  next
    case True
    let ?new = "heights (Suc scroll_count)"
    let ?nc = "if ?new = last_height then no_change_count + 1 else 0"
    have eq: "scroll_loop heights max_scrolls last_height scroll_count no_change_count =
              scroll_loop heights max_scrolls ?new (Suc scroll_count) ?nc"
      using True by (simp add: scroll_loop_step)
    have nc: "?nc = run heights (Suc scroll_count)"
      using "1.prems" by simp
    note IH = "1.IH"[OF True refl refl nc refl]
    let ?n = "scroll_loop heights max_scrolls ?new (Suc scroll_count) ?nc"
    from IH have i1: "Suc scroll_count \<le> ?n"
      and i2: "?n \<le> nat max_scrolls \<or> ?n = Suc scroll_count"
      and i3: "\<And>j. Suc scroll_count \<le> j \<Longrightarrow> j < ?n \<Longrightarrow> run heights j < 3"
      and i4: "\<not> (int ?n < max_scrolls \<and> run heights ?n < 3)"
      by blast+
    have g1: "scroll_count \<le> ?n" using i1 by simp
    have g2: "?n \<le> nat max_scrolls \<or> ?n = scroll_count"
      using i2 True by auto
    have g3: "run heights j < 3" if "scroll_count \<le> j" "j < ?n" for j
    proof (cases "j = scroll_count")
      case True
      with \<open>int scroll_count < max_scrolls \<and> no_change_count < 3\<close> "1.prems"
      show ?thesis by simp
    next
      case False
      with that have "Suc scroll_count \<le> j" by simp
      with that show ?thesis by (rule_tac i3)
    qed
    show ?thesis
      unfolding eq using g1 g2 g3 i4 by blast
  qed
qed

text \<open>
  C7: for every sequence of observed page heights, \<open>scroll_to_load_products\<close> performs
  at most \<open>max_scrolls\<close> rounds, whether or not the height ever stops changing; it has
  stopped by the first round that ends three consecutive rounds without change, and
  when it stops before \<open>max_scrolls\<close> rounds, it stops at such a round. So when the
  first such round is within \<open>max_scrolls\<close>, the loop performs exactly that many rounds.
\<close>

theorem scroll_rounds_bounded:
  "scroll_to_load_products heights max_scrolls \<le> nat max_scrolls \<and>
   (\<forall>k. plateau heights k \<longrightarrow> scroll_to_load_products heights max_scrolls \<le> k) \<and>
   (scroll_to_load_products heights max_scrolls < nat max_scrolls \<longrightarrow>
      plateau heights (scroll_to_load_products heights max_scrolls)) \<and>
   (\<forall>k. plateau heights k \<and> (\<forall>j<k. \<not> plateau heights j) \<and> k \<le> nat max_scrolls \<longrightarrow>
      scroll_to_load_products heights max_scrolls = k)"
proof -
  let ?n = "scroll_to_load_products heights max_scrolls"
  have inv:
    "(?n \<le> nat max_scrolls \<or> ?n = 0) \<and> (\<forall>j. 0 \<le> j \<and> j < ?n \<longrightarrow> run heights j < 3) \<and>
     \<not> (int ?n < max_scrolls \<and> run heights ?n < 3)"
    unfolding scroll_to_load_products_def
    using scroll_loop_inv[of 0 heights 0 "heights 0" max_scrolls] by simp
  have a: "?n \<le> nat max_scrolls" using inv by auto
  have b: "?n \<le> k" if "plateau heights k" for k
  proof (rule ccontr)
    assume "\<not> ?n \<le> k"
    then have "run heights k < 3" using inv by auto
    with that show False by (simp add: run_plateau [symmetric])
  qed
  have c: "plateau heights ?n" if "?n < nat max_scrolls"
  proof -
    from that have "int ?n < max_scrolls" by linarith
    with inv have "3 \<le> run heights ?n" by auto
    then show ?thesis by (simp add: run_plateau)
  qed
  have e: "?n = k" if "plateau heights k" "\<forall>j<k. \<not> plateau heights j" "k \<le> nat max_scrolls" for k
  proof (rule ccontr)
    assume "?n \<noteq> k"
    with b[OF that(1)] have l: "?n < k" by simp
    with that(3) have "?n < nat max_scrolls" by simp
    then have "plateau heights ?n" by (rule c)
    with l that(2) show False by blast
  qed
  from a b c e show ?thesis by blast
qed

theorem scroll_rounds_bounded_witness:
  "scroll_to_load_products (\<lambda>k. int k) MAX_SCROLLS \<le> 20 \<and>
   plateau (\<lambda>k. if k < 4 then int k else 7) 7 \<and>
   scroll_to_load_products (\<lambda>k. if k < 4 then int k else 7) MAX_SCROLLS = 7"
proof -
  have p: "plateau (\<lambda>k. if k < 4 then int k else 7) 7"
    by (simp add: plateau_def no_change_def)
  have lt: "scroll_to_load_products (\<lambda>k. if k < 4 then int k else 7) MAX_SCROLLS < nat MAX_SCROLLS \<Longrightarrow>
     plateau (\<lambda>k. if k < 4 then int k else 7) (scroll_to_load_products (\<lambda>k. if k < 4 then int k else 7) MAX_SCROLLS)"
    using scroll_rounds_bounded[of "\<lambda>k. if k < 4 then int k else 7" MAX_SCROLLS] by blast
  have le: "scroll_to_load_products (\<lambda>k. if k < 4 then int k else 7) MAX_SCROLLS \<le> 7"
    using scroll_rounds_bounded[of "\<lambda>k. if k < 4 then int k else 7" MAX_SCROLLS] p by blast
  have ge: "\<not> plateau (\<lambda>k. if k < 4 then int k else 7) j" if "j < 7" for j
  proof -
    from that have "j \<in> {0,1,2,3,4,5,6}" by auto
    then show ?thesis by (auto simp: plateau_def no_change_def)
  qed
  have "scroll_to_load_products (\<lambda>k. if k < 4 then int k else 7) MAX_SCROLLS = 7"
    using le lt ge[of "scroll_to_load_products (\<lambda>k. if k < 4 then int k else 7) MAX_SCROLLS"]
    by (cases "scroll_to_load_products (\<lambda>k. if k < 4 then int k else 7) MAX_SCROLLS = 7")
       (auto simp: MAX_SCROLLS_def)
  moreover have "scroll_to_load_products (\<lambda>k. int k) MAX_SCROLLS \<le> 20"
    using scroll_rounds_bounded[of "\<lambda>k. int k" MAX_SCROLLS] by (simp add: MAX_SCROLLS_def)
  ultimately show ?thesis using p by simp
qed

section \<open>Discount percentage\<close>






















section \<open>Category URL resolution\<close>

lemma partial_match_find:
  "partial_match U categories category_name =
     (case find (\<lambda>(key, data). py_in (lower U category_name) key \<or> py_in key (lower U category_name))
             categories of
        Some (key, data) \<Rightarrow> BASE_URL @ ce_url data
      | None \<Rightarrow> BASE_URL @ replace_space_hyphen (lower U category_name))"
  by (induction U categories category_name rule: partial_match.induct) simp_all

text \<open>
  C3: \<open>get_category_url\<close> returns a URL for every input string: it is total, its result
  starts with the site address \<open>https://chaldal.com/\<close> and so is never empty (the
  caller's \<open>if not url\<close> branch is dead). An exact match of the lower-cased query among
  the cached keys gives the cached URL; failing that, the first cached key, in
  dictionary order, that contains the lower-cased query or is contained in it gives its
  URL; failing that, the result is the site address followed by the lower-cased query
  in which every space is replaced by a hyphen and nothing else is changed. The
  lower-cased query is \<open>category_name.lower()\<close>, whatever the script of the name.
\<close>

theorem get_category_url_resolution:
  "(\<exists>path. get_category_url U categories category_name = ''https://chaldal.com/'' @ path) \<and>
   get_category_url U categories category_name \<noteq> '''' \<and>
   (\<forall>data. map_of categories (lower U category_name) = Some data \<longrightarrow>
      get_category_url U categories category_name = ''https://chaldal.com/'' @ ce_url data) \<and>
   (map_of categories (lower U category_name) = None \<longrightarrow>
      get_category_url U categories category_name =
        (case find (\<lambda>(key, data). sublist (lower U category_name) key \<or>
                                  sublist key (lower U category_name)) categories of
           Some (key, data) \<Rightarrow> ''https://chaldal.com/'' @ ce_url data
         | None \<Rightarrow> ''https://chaldal.com/'' @
                    map (\<lambda>c. if c = CHR '' '' then CHR ''-'' else c) (lower U category_name)))"
proof -
  have p: "\<exists>path. get_category_url U categories category_name = ''https://chaldal.com/'' @ path"
    using partial_match_prefix[of U categories category_name]
    by (auto simp: get_category_url_def BASE_URL_def split: option.splits)
  then have n: "get_category_url U categories category_name \<noteq> ''''"
    by auto
  have e: "\<forall>data. map_of categories (lower U category_name) = Some data \<longrightarrow>
      get_category_url U categories category_name = ''https://chaldal.com/'' @ ce_url data"
    by (simp add: get_category_url_def BASE_URL_def)
  have f: "map_of categories (lower U category_name) = None \<longrightarrow>
      get_category_url U categories category_name =
        (case find (\<lambda>(key, data). sublist (lower U category_name) key \<or>
                                  sublist key (lower U category_name)) categories of
           Some (key, data) \<Rightarrow> ''https://chaldal.com/'' @ ce_url data
         | None \<Rightarrow> ''https://chaldal.com/'' @
                    map (\<lambda>c. if c = CHR '' '' then CHR ''-'' else c) (lower U category_name))"
    by (auto simp: get_category_url_def partial_match_find py_in_def BASE_URL_def
          replace_space_hyphen_def split: option.splits)
  from p n e f show ?thesis by blast
qed

lemma example_lookup:
  "map_of example_categories ''rice'' =
     Some \<lparr>ce_name = ''Rice'', ce_url = ''rices'', ce_level = 2,
           ce_parent = Some ''Cooking'', ce_product_count = 40, ce_verified = True,
           ce_verified_at = ''2025-01-05T10:00:00''\<rparr>"
  "map_of example_categories ''basmati rice'' = None"
  "map_of example_categories ''frozen peas'' = None"
  "map_of example_categories epices_fines_lower = None"
  by (simp_all add: example_categories_def epices_fines_lower_def)

lemma example_find:
  "find (\<lambda>(key, data). sublist ''basmati rice'' key \<or> sublist key ''basmati rice'')
     example_categories =
     Some (''rice'', \<lparr>ce_name = ''Rice'', ce_url = ''rices'', ce_level = 2,
           ce_parent = Some ''Cooking'', ce_product_count = 40, ce_verified = True,
           ce_verified_at = ''2025-01-05T10:00:00''\<rparr>)"
  "find (\<lambda>(key, data). sublist ''frozen peas'' key \<or> sublist key ''frozen peas'')
     example_categories = None"
  "find (\<lambda>(key, data). sublist epices_fines_lower key \<or> sublist key epices_fines_lower)
     example_categories = None"
  by code_simp+

lemma example_slugs:
  "map (\<lambda>c. if c = CHR '' '' then CHR ''-'' else c) ''frozen peas'' = ''frozen-peas''"
  "map (\<lambda>c. if c = CHR '' '' then CHR ''-'' else c) epices_fines_lower =
     [CHR 0xC3, CHR 0xA9] @ ''pices-fines''"
  by (simp_all add: epices_fines_lower_def)

theorem get_category_url_resolution_witness:
  "get_category_url example_unicode example_categories ''Rice'' = ''https://chaldal.com/rices'' \<and>
   get_category_url example_unicode example_categories ''Basmati Rice'' =
     ''https://chaldal.com/rices'' \<and>
   get_category_url example_unicode example_categories ''Frozen Peas'' =
     ''https://chaldal.com/frozen-peas'' \<and>
   get_category_url example_unicode example_categories epices_fines =
     ''https://chaldal.com/'' @ [CHR 0xC3, CHR 0xA9] @ ''pices-fines''"
proof -
  note T = get_category_url_resolution[where U = example_unicode and categories = example_categories]
  have a: "get_category_url example_unicode example_categories ''Rice'' = ''https://chaldal.com/rices''"
    using T[of "''Rice''"] unfolding lower_examples example_lookup by simp
  have b: "get_category_url example_unicode example_categories ''Basmati Rice'' =
           ''https://chaldal.com/rices''"
    using T[of "''Basmati Rice''"] unfolding lower_examples example_lookup example_find by simp
  have c: "get_category_url example_unicode example_categories ''Frozen Peas'' =
           ''https://chaldal.com/frozen-peas''"
    using T[of "''Frozen Peas''"]
    unfolding lower_examples example_lookup example_find example_slugs by simp
  have d: "get_category_url example_unicode example_categories epices_fines =
           ''https://chaldal.com/'' @ [CHR 0xC3, CHR 0xA9] @ ''pices-fines''"
    using T[of epices_fines]
    unfolding lower_examples example_lookup example_find example_slugs by simp
  from a b c d show ?thesis by simp
qed

section \<open>Outcomes of the scrape operation\<close>

lemma scrape_product_data_timeout:
  "browser (get_category_url U categories category) REQUEST_TIMEOUT = WaitTimeout \<Longrightarrow>
   scrape_product_data U categories browser clk category d =
     (d, CROSS_MARK @ '' No products found for category: '' @ category)"
  by (simp add: scrape_product_data_def Let_def get_category_url_nonempty init_database_def)

lemma scrape_product_data_raises:
  "browser (get_category_url U categories category) REQUEST_TIMEOUT = Raises msg \<Longrightarrow>
   scrape_product_data U categories browser clk category d =
     (insert_log clk category 0 0 ''error'' (Some msg) d,
      CROSS_MARK @ '' Error scraping '' @ category @ '': '' @ msg)"
  by (simp add: scrape_product_data_def Let_def get_category_url_nonempty init_database_def)

lemma scrape_product_data_loaded:
  "browser (get_category_url U categories category) REQUEST_TIMEOUT = Loaded products current_url \<Longrightarrow>
   fst (scrape_product_data U categories browser clk category d) =
     (if extract_products U category current_url products \<noteq> []
      then save_products clk category (length products)
             (extract_products U category current_url products) d
      else d)"
  by (simp add: scrape_product_data_def Let_def get_category_url_nonempty init_database_def)

text \<open>
  C5: when no product element appears within the wait budget of 15 seconds, so that the
  wait raises \<open>TimeoutException\<close>, \<open>scrape_product_data\<close> returns the summary
  "No products found for category: ..." to its caller; the timeout ends this call with a
  value, not with an exception.
\<close>

theorem scrape_timeout_returns_no_products:
  "browser (get_category_url U categories category) REQUEST_TIMEOUT = WaitTimeout \<Longrightarrow>
   REQUEST_TIMEOUT = 15 \<and>
   snd (scrape_product_data U categories browser clk category d) =
     CROSS_MARK @ '' No products found for category: '' @ category"
  by (simp add: scrape_product_data_timeout REQUEST_TIMEOUT_def)

theorem scrape_timeout_returns_no_products_witness:
  "snd (scrape_product_data example_unicode example_categories (\<lambda>url budget. WaitTimeout) example_clock ''oil''
         empty_db) =
     CROSS_MARK @ '' No products found for category: oil''"
  using scrape_timeout_returns_no_products
          [of "\<lambda>url budget. WaitTimeout" example_unicode example_categories "''oil''" example_clock empty_db]
  by simp


lemma safe_text_missing: "safe_text U (Inl NoSuchElementException) = Inr ''''"
  by (simp add: safe_text_def)

lemma extract_product_nameless:
  "el_name product = Inl NoSuchElementException \<or> (\<exists>t. el_name product = Inr t \<and> strip U t = '''') \<Longrightarrow>
   extract_product U category current_url product = None"
  by (auto simp: extract_product_def safe_text_def)


text \<open>
  C4, at the timeout: scraping category "oil" on a page that shows no product within
  the wait budget returns the "No products found" summary and leaves \<open>scraping_logs\<close>
  without any row, whereas an exception from the browser on the same request appends
  one row with status "error", zero counts and the message.
\<close>

theorem scrape_timeout_appends_no_log:
  "scrape_product_data example_unicode example_categories (\<lambda>url budget. WaitTimeout) example_clock ''oil'' empty_db =
     (empty_db, CROSS_MARK @ '' No products found for category: oil'') \<and>
   scraping_logs_tbl (fst (scrape_product_data example_unicode example_categories (\<lambda>url budget. WaitTimeout)
     example_clock ''oil'' empty_db)) = [] \<and>
   scraping_logs_tbl (fst (scrape_product_data example_unicode example_categories
     (\<lambda>url budget. Raises ''net::ERR_CONNECTION_RESET'') example_clock ''oil'' empty_db)) =
     [\<lparr>l_id = 1, l_category = ''oil'', l_products_found = 0, l_products_saved = 0,
       l_status = ''error'', l_error_message = Some ''net::ERR_CONNECTION_RESET'',
       l_duration_seconds = Finite False 12, l_scraped_at = ''2025-01-05 04:00:00''\<rparr>]"
  by (simp add: scrape_product_data_timeout scrape_product_data_raises insert_log_def
        empty_db_def example_clock_def)

section \<open>Items without a name are skipped\<close>

lemma extract_products_skip:
  "extract_product U category current_url product = None \<Longrightarrow>
   extract_products U category current_url (before @ product # after) =
     extract_products U category current_url (before @ after)"
  by (simp add: extract_products_append)

lemma extract_price_info_missing:
  "el_discountedPrice product = Inl NoSuchElementException \<Longrightarrow>
   el_price product = Inl NoSuchElementException \<Longrightarrow>
   extract_price_info U product =
     \<lparr>pi_price = '''', pi_original_price = '''', pi_discount_percentage = ''''\<rparr>"
  by (simp add: extract_price_info_def safe_text_def)

lemma extract_product_named:
  assumes "el_name product = Inr name" and "strip U name \<noteq> ''''"
    and "el_subText product = Inl NoSuchElementException \<or> (\<exists>q. el_subText product = Inr q)"
  shows "\<exists>p. extract_product U category current_url product = Some p \<and>
           pd_name p = strip U name \<and>
           (el_subText product = Inl NoSuchElementException \<longrightarrow> pd_quantity p = '''') \<and>
           (el_a_href product = Inl NoSuchElementException \<longrightarrow> pd_product_url p = Some '''') \<and>
           (el_img_src product = Inl NoSuchElementException \<longrightarrow> pd_image_url p = Some '''') \<and>
           (el_discountedPrice product = Inl NoSuchElementException \<and>
            el_price product = Inl NoSuchElementException \<longrightarrow>
              pd_price p = '''' \<and> pd_original_price p = '''' \<and> pd_discount_percentage p = '''')"
  using assms
  by (auto simp: extract_product_def safe_text_def Let_def attribute_or_empty_def
        extract_price_info_missing)

lemma scrape_saved_rows:
  assumes "browser (get_category_url U categories category) REQUEST_TIMEOUT = Loaded products current_url"
    and "extract_products U category current_url products \<noteq> []"
  shows "map scraped_columns
           (category_rows category (fst (scrape_product_data U categories browser clk category d))) =
         map data_columns (extract_products U category current_url products)"
    and "l_products_saved (last (scraping_logs_tbl
           (fst (scrape_product_data U categories browser clk category d)))) =
         length (extract_products U category current_url products)"
proof -
  let ?pd = "extract_products U category current_url products"
  have c: "\<forall>p \<in> set ?pd. pd_category p = category"
    using extract_products_names by blast
  have f: "fst (scrape_product_data U categories browser clk category d) =
           save_products clk category (length products) ?pd d"
    using assms by (simp add: scrape_product_data_loaded)
  show "map scraped_columns
           (category_rows category (fst (scrape_product_data U categories browser clk category d))) =
         map data_columns ?pd"
    unfolding f
    using category_rows_replace_category[OF c, of clk d]
    by (simp add: category_rows_def save_products_tbl new_rows_columns)
  show "l_products_saved (last (scraping_logs_tbl
           (fst (scrape_product_data U categories browser clk category d)))) = length ?pd"
    unfolding f by (simp add: save_products_tbl)
qed

text \<open>
  C6: an element whose name is missing or empty (nothing is left of the name text once
  \<open>str.strip()\<close> has removed the white space at both ends) is skipped: it yields no product, the
  extracted list is the one obtained without it, no extracted product has an empty
  name, and after a scrape that extracted something the rows stored for the category
  are, column for column, the extracted products, whose number is the \<open>products_saved\<close>
  count of the log row. An element with a name is included also when other fields are
  missing, each missing field being the empty string.
\<close>

theorem nameless_items_skipped:
  "(el_name product = Inl NoSuchElementException \<or>
      (\<exists>t. el_name product = Inr t \<and> strip U t = '''') \<longrightarrow>
      extract_product U category current_url product = None \<and>
      extract_products U category current_url (before @ product # after) =
        extract_products U category current_url (before @ after)) \<and>
   (\<forall>p \<in> set (extract_products U category current_url products). pd_name p \<noteq> '''') \<and>
   (browser (get_category_url U categories category) REQUEST_TIMEOUT = Loaded products current_url \<and>
    extract_products U category current_url products \<noteq> [] \<longrightarrow>
      map scraped_columns
        (category_rows category (fst (scrape_product_data U categories browser clk category d))) =
      map data_columns (extract_products U category current_url products) \<and>
      l_products_saved (last (scraping_logs_tbl
        (fst (scrape_product_data U categories browser clk category d)))) =
      length (extract_products U category current_url products)) \<and>
   (el_name product = Inr name \<and> strip U name \<noteq> '''' \<and>
    (el_subText product = Inl NoSuchElementException \<or> (\<exists>q. el_subText product = Inr q)) \<longrightarrow>
      (\<exists>p. extract_product U category current_url product = Some p \<and>
           pd_name p = strip U name \<and>
           (el_subText product = Inl NoSuchElementException \<longrightarrow> pd_quantity p = '''') \<and>
           (el_a_href product = Inl NoSuchElementException \<longrightarrow> pd_product_url p = Some '''') \<and>
           (el_img_src product = Inl NoSuchElementException \<longrightarrow> pd_image_url p = Some '''') \<and>
           (el_discountedPrice product = Inl NoSuchElementException \<and>
            el_price product = Inl NoSuchElementException \<longrightarrow>
              pd_price p = '''' \<and> pd_original_price p = '''' \<and> pd_discount_percentage p = '''')))"
proof (intro conjI impI ballI)
  assume a: "el_name product = Inl NoSuchElementException \<or>
      (\<exists>t. el_name product = Inr t \<and> strip U t = '''')"
  then show n: "extract_product U category current_url product = None"
    by (rule extract_product_nameless)
  then show "extract_products U category current_url (before @ product # after) =
        extract_products U category current_url (before @ after)"
    by (rule extract_products_skip)
next
  fix p
  assume "p \<in> set (extract_products U category current_url products)"
  then show "pd_name p \<noteq> ''''"
    using extract_products_names by blast
next
  assume a: "browser (get_category_url U categories category) REQUEST_TIMEOUT = Loaded products current_url \<and>
    extract_products U category current_url products \<noteq> []"
  then show "map scraped_columns
        (category_rows category (fst (scrape_product_data U categories browser clk category d))) =
      map data_columns (extract_products U category current_url products)"
    using scrape_saved_rows(1) by blast
  from a show "l_products_saved (last (scraping_logs_tbl
        (fst (scrape_product_data U categories browser clk category d)))) =
      length (extract_products U category current_url products)"
    using scrape_saved_rows(2) by blast
next
  assume "el_name product = Inr name \<and> strip U name \<noteq> '''' \<and>
    (el_subText product = Inl NoSuchElementException \<or> (\<exists>q. el_subText product = Inr q))"
  then show "\<exists>p. extract_product U category current_url product = Some p \<and>
           pd_name p = strip U name \<and>
           (el_subText product = Inl NoSuchElementException \<longrightarrow> pd_quantity p = '''') \<and>
           (el_a_href product = Inl NoSuchElementException \<longrightarrow> pd_product_url p = Some '''') \<and>
           (el_img_src product = Inl NoSuchElementException \<longrightarrow> pd_image_url p = Some '''') \<and>
           (el_discountedPrice product = Inl NoSuchElementException \<and>
            el_price product = Inl NoSuchElementException \<longrightarrow>
              pd_price p = '''' \<and> pd_original_price p = '''' \<and> pd_discount_percentage p = '''')"
    using extract_product_named[of product name U category current_url] by blast
qed

lemma example_extraction:
  "extract_products example_unicode ''rice'' url [rice_element, nameless_element, bare_element] =
     [\<lparr>pd_name = ''Miniket Rice'', pd_price = ''Tk 95'', pd_original_price = '''',
       pd_discount_percentage = '''', pd_quantity = ''1 kg'', pd_category = ''rice'',
       pd_product_url = Some ''https://chaldal.com/miniket-rice'',
       pd_image_url = Some ''https://chaldal.com/miniket-rice.png'', pd_scraped_url = url\<rparr>,
      \<lparr>pd_name = ''Nazirshail Rice'', pd_price = '''', pd_original_price = '''',
       pd_discount_percentage = '''', pd_quantity = '''', pd_category = ''rice'',
       pd_product_url = Some '''', pd_image_url = Some '''', pd_scraped_url = url\<rparr>]"
  by (simp add: rice_element_def nameless_element_def bare_element_def extract_product_def
        safe_text_def char_eval extract_price_info_def attribute_or_empty_def)

theorem nameless_items_skipped_witness:
  "extract_product example_unicode ''rice'' ''https://chaldal.com/rices'' nameless_element = None \<and>
   extract_products example_unicode ''rice'' ''https://chaldal.com/rices''
     [rice_element, nameless_element, bare_element] =
   extract_products example_unicode ''rice'' ''https://chaldal.com/rices'' [rice_element, bare_element] \<and>
   map (\<lambda>r. (p_name r, p_price r, p_quantity r))
     (category_rows ''rice'' (fst (scrape_product_data example_unicode example_categories
        (\<lambda>url budget. Loaded [rice_element, nameless_element, bare_element] url)
        example_clock ''rice'' empty_db))) =
     [(''Miniket Rice'', ''Tk 95'', ''1 kg''), (''Nazirshail Rice'', '''', '''')] \<and>
   l_products_saved (last (scraping_logs_tbl (fst (scrape_product_data example_unicode example_categories
        (\<lambda>url budget. Loaded [rice_element, nameless_element, bare_element] url)
        example_clock ''rice'' empty_db)))) = 2 \<and>
   (\<exists>p. extract_product example_unicode ''rice'' ''https://chaldal.com/rices'' bare_element = Some p \<and>
        pd_name p = ''Nazirshail Rice'' \<and> pd_price p = '''' \<and> pd_quantity p = '''' \<and>
        pd_product_url p = Some '''') \<and>
   '''' \<notin> set (map pd_name (extract_products example_unicode ''rice'' ''https://chaldal.com/rices''
     [rice_element, nameless_element, bare_element])) \<and>
   extract_product example_unicode ''rice'' ''https://chaldal.com/rices'' blank_name_element = None"
proof -
  let ?u = "''https://chaldal.com/rices''"
  let ?b = "\<lambda>url budget :: nat. Loaded [rice_element, nameless_element, bare_element] url"
  let ?d = "fst (scrape_product_data example_unicode example_categories ?b example_clock ''rice'' empty_db)"
  let ?url = "get_category_url example_unicode example_categories ''rice''"
  note T = nameless_items_skipped
    [where U = example_unicode and category = "''rice''" and browser = ?b
       and products = "[rice_element, nameless_element, bare_element]"
       and categories = example_categories and clk = example_clock and d = empty_db]
  note T1 = T
    [where product = nameless_element and current_url = ?u and before = "[rice_element]"
       and after = "[bare_element]" and name = "''''"]
  note T2 = T
    [where product = bare_element and current_url = ?url and before = "[]" and after = "[]"
       and name = "''Nazirshail Rice''"]
  note T3 = T
    [where product = bare_element and current_url = ?u and before = "[]" and after = "[]"
       and name = "''Nazirshail Rice''"]
  note T4 = T
    [where product = blank_name_element and current_url = ?u and before = "[]" and after = "[]"
       and name = "''''"]
  have nm: "el_name nameless_element = Inl NoSuchElementException"
    by (simp add: nameless_element_def)
  have a: "extract_product example_unicode ''rice'' ?u nameless_element = None"
    and b: "extract_products example_unicode ''rice'' ?u [rice_element, nameless_element, bare_element] =
            extract_products example_unicode ''rice'' ?u [rice_element, bare_element]"
    using T1 nm by simp_all
  have ne: "extract_products example_unicode ''rice'' ?url [rice_element, nameless_element, bare_element] \<noteq> []"
    unfolding example_extraction by simp
  have rows: "map scraped_columns (category_rows ''rice'' ?d) =
        map data_columns (extract_products example_unicode ''rice'' ?url [rice_element, nameless_element, bare_element])"
    and saved: "l_products_saved (last (scraping_logs_tbl ?d)) =
        length (extract_products example_unicode ''rice'' ?url [rice_element, nameless_element, bare_element])"
    using T2 ne by simp_all
  have "map (\<lambda>r. (p_name r, p_price r, p_quantity r)) (category_rows ''rice'' ?d) =
        map ((\<lambda>(a1, a2, a3, a4, a5, a6, a7, a8). (a1, a2, a5)) \<circ> scraped_columns) (category_rows ''rice'' ?d)"
    by (simp add: scraped_columns_def)
  also have "\<dots> = map (\<lambda>(a1, a2, a3, a4, a5, a6, a7, a8). (a1, a2, a5))
        (map scraped_columns (category_rows ''rice'' ?d))"
    by simp
  also have "\<dots> = [(''Miniket Rice'', ''Tk 95'', ''1 kg''), (''Nazirshail Rice'', '''', '''')]"
    unfolding rows example_extraction by (simp add: data_columns_def)
  finally have c: "map (\<lambda>r. (p_name r, p_price r, p_quantity r)) (category_rows ''rice'' ?d) =
        [(''Miniket Rice'', ''Tk 95'', ''1 kg''), (''Nazirshail Rice'', '''', '''')]" .
  have d: "l_products_saved (last (scraping_logs_tbl ?d)) = 2"
    using saved unfolding example_extraction by simp
  have st: "strip example_unicode ''Nazirshail Rice'' = ''Nazirshail Rice''"
    by (simp add: char_eval)
  have bl: "el_name blank_name_element = Inr ideographic_space"
    "strip example_unicode ideographic_space = ''''"
    by (simp_all add: blank_name_element_def ideographic_space_def char_eval)
  have g: "extract_product example_unicode ''rice'' ?u blank_name_element = None"
    using T4 bl by blast
  have e: "\<exists>p. extract_product example_unicode ''rice'' ?u bare_element = Some p \<and>
        pd_name p = ''Nazirshail Rice'' \<and> pd_price p = '''' \<and> pd_quantity p = '''' \<and>
        pd_product_url p = Some ''''"
    using T3 st by (auto simp: bare_element_def)
  have "\<forall>p \<in> set (extract_products example_unicode ''rice'' ?u [rice_element, nameless_element, bare_element]).
          pd_name p \<noteq> ''''"
    using T1 by blast
  then have f: "'''' \<notin> set (map pd_name (extract_products example_unicode ''rice'' ?u
     [rice_element, nameless_element, bare_element]))"
    by auto
  from a b c d e f g show ?thesis by blast
qed

section \<open>Replacing a category twice\<close>

lemma new_rows_ids:
  "map p_id (new_rows clk k last_id products_data) =
     map (\<lambda>i. last_id + Suc i) [0..<length products_data]"
proof (induction products_data arbitrary: k last_id)
  case Nil
  then show ?case by simp
next
  case (Cons product rest)
  have "map (\<lambda>i. last_id + Suc i) [0..<Suc (length rest)] =
        (last_id + Suc 0) # map (\<lambda>i. last_id + Suc (Suc i)) [0..<length rest]"
    by (simp only: map_upt_Suc)
  with Cons show ?case by (simp add: product_row_of_def)
qed

lemma new_rows_scraped_at:
  "map p_scraped_at (new_rows clk k last_id products_data) =
     map (\<lambda>i. datetime_now clk (k + i)) [0..<length products_data]"
proof (induction products_data arbitrary: k last_id)
  case Nil
  then show ?case by simp
next
  case (Cons product rest)
  have "map (\<lambda>i. datetime_now clk (k + i)) [0..<Suc (length rest)] =
        datetime_now clk (k + 0) # map (\<lambda>i. datetime_now clk (k + Suc i)) [0..<length rest]"
    by (simp only: map_upt_Suc)
  with Cons show ?case by (simp add: product_row_of_def)
qed

lemma new_rows_other_columns:
  "r \<in> set (new_rows clk k last_id products_data) \<Longrightarrow>
   p_subcategory r = None \<and> p_updated_at r = current_timestamp clk"
  by (induction products_data arbitrary: k last_id) (auto simp: product_row_of_def)

lemma extracted_category:
  "\<forall>p \<in> set (extract_products U category current_url products). pd_category p = category"
  using extract_products_names by blast

text \<open>
  C2, as the code has it: running the category-replacement step twice in succession
  with the same extracted data leaves the rows of the category the same in number, in
  order and in every column the scraper supplies (name, price, original price,
  discount percentage, quantity, category, product URL, image URL); the rows of every
  other category are the same rows. What differs is what the store and the clock
  supply: the second run's rows carry fresh ids, above every id of the first run, and
  the timestamps the clock shows during the second run.
\<close>

theorem replace_category_twice:
  "(map scraped_columns
      (category_rows category
         (replace_category clk2 category (extract_products U category current_url products)
            (replace_category clk1 category (extract_products U category current_url products) d))) =
    map scraped_columns
      (category_rows category
         (replace_category clk1 category (extract_products U category current_url products) d))) \<and>
   length
      (category_rows category
         (replace_category clk2 category (extract_products U category current_url products)
            (replace_category clk1 category (extract_products U category current_url products) d))) =
   length
      (category_rows category
         (replace_category clk1 category (extract_products U category current_url products) d)) \<and>
   (\<forall>other. other \<noteq> category \<longrightarrow>
      category_rows other
         (replace_category clk2 category (extract_products U category current_url products)
            (replace_category clk1 category (extract_products U category current_url products) d)) =
      category_rows other
         (replace_category clk1 category (extract_products U category current_url products) d)) \<and>
   map p_id
      (category_rows category
         (replace_category clk2 category (extract_products U category current_url products)
            (replace_category clk1 category (extract_products U category current_url products) d))) =
   map (\<lambda>i. i + length (extract_products U category current_url products))
     (map p_id
        (category_rows category
           (replace_category clk1 category (extract_products U category current_url products) d))) \<and>
   map p_scraped_at
      (category_rows category
         (replace_category clk2 category (extract_products U category current_url products)
            (replace_category clk1 category (extract_products U category current_url products) d))) =
   map (datetime_now clk2) [0..<length (extract_products U category current_url products)]"
proof -
  let ?pd = "extract_products U category current_url products"
  let ?d1 = "replace_category clk1 category ?pd d"
  let ?d2 = "replace_category clk2 category ?pd ?d1"
  note c = extracted_category[of U category current_url products]
  have r1: "category_rows category ?d1 = new_rows clk1 0 (products_seq d) ?pd"
    by (rule category_rows_replace_category[OF c])
  have r2: "category_rows category ?d2 = new_rows clk2 0 (products_seq d + length ?pd) ?pd"
    using category_rows_replace_category[OF c, of clk2 ?d1] by (simp add: replace_category_tbl)
  have a: "map scraped_columns (category_rows category ?d2) =
           map scraped_columns (category_rows category ?d1)"
    by (simp add: r1 r2 new_rows_columns)
  have b: "length (category_rows category ?d2) = length (category_rows category ?d1)"
    by (simp add: r1 r2 length_new_rows)
  have o: "\<forall>other. other \<noteq> category \<longrightarrow> category_rows other ?d2 = category_rows other ?d1"
    using category_rows_replace_other[OF c] by blast
  have i: "map p_id (category_rows category ?d2) =
           map (\<lambda>i. i + length ?pd) (map p_id (category_rows category ?d1))"
    by (simp add: r1 r2 new_rows_ids)
  have t: "map p_scraped_at (category_rows category ?d2) = map (datetime_now clk2) [0..<length ?pd]"
    by (simp add: r2 new_rows_scraped_at)
  from a b o i t show ?thesis by blast
qed

lemma example_rice_extraction:
  "extract_products example_unicode ''rice'' url [rice_element] =
     [\<lparr>pd_name = ''Miniket Rice'', pd_price = ''Tk 95'', pd_original_price = '''',
       pd_discount_percentage = '''', pd_quantity = ''1 kg'', pd_category = ''rice'',
       pd_product_url = Some ''https://chaldal.com/miniket-rice'',
       pd_image_url = Some ''https://chaldal.com/miniket-rice.png'', pd_scraped_url = url\<rparr>]"
  by (simp add: rice_element_def extract_product_def safe_text_def char_eval
        extract_price_info_def attribute_or_empty_def)

lemma str_nat_0: "str_nat 0 = ''0''"
  by code_simp

theorem replace_category_twice_witness:
  "map scraped_columns
      (category_rows ''rice''
         (replace_category later_clock ''rice''
            (extract_products example_unicode ''rice'' ''https://chaldal.com/rices'' [rice_element])
            (replace_category example_clock ''rice''
               (extract_products example_unicode ''rice'' ''https://chaldal.com/rices'' [rice_element])
               example_db))) =
     [(''Miniket Rice'', ''Tk 95'', '''', '''', ''1 kg'', ''rice'',
       Some ''https://chaldal.com/miniket-rice'', Some ''https://chaldal.com/miniket-rice.png'')] \<and>
   category_rows ''oil''
      (replace_category later_clock ''rice''
         (extract_products example_unicode ''rice'' ''https://chaldal.com/rices'' [rice_element])
         (replace_category example_clock ''rice''
            (extract_products example_unicode ''rice'' ''https://chaldal.com/rices'' [rice_element])
            example_db)) =
     category_rows ''oil'' example_db"
proof -
  let ?pd = "extract_products example_unicode ''rice'' ''https://chaldal.com/rices'' [rice_element]"
  let ?d1 = "replace_category example_clock ''rice'' ?pd example_db"
  let ?d2 = "replace_category later_clock ''rice'' ?pd ?d1"
  note T = replace_category_twice
    [where ?clk2.0 = later_clock and category = "''rice''" and U = example_unicode
       and current_url = "''https://chaldal.com/rices''" and products = "[rice_element]"
       and ?clk1.0 = example_clock and d = example_db]
  have c: "\<forall>p \<in> set ?pd. pd_category p = ''rice''"
    by (rule extracted_category)
  have "map scraped_columns (category_rows ''rice'' ?d1) = map data_columns ?pd"
    using category_rows_replace_category[OF c, of example_clock example_db]
    by (simp add: new_rows_columns)
  then have a: "map scraped_columns (category_rows ''rice'' ?d2) =
     [(''Miniket Rice'', ''Tk 95'', '''', '''', ''1 kg'', ''rice'',
       Some ''https://chaldal.com/miniket-rice'', Some ''https://chaldal.com/miniket-rice.png'')]"
    using T unfolding example_rice_extraction by (simp add: data_columns_def)
  have "category_rows ''oil'' ?d2 = category_rows ''oil'' ?d1"
    using T by simp
  moreover have "category_rows ''oil'' ?d1 = category_rows ''oil'' example_db"
    using category_rows_replace_other[OF c, of "''oil''" example_clock example_db] by simp
  ultimately have b: "category_rows ''oil'' ?d2 = category_rows ''oil'' example_db"
    by simp
  from a b show ?thesis by blast
qed

theorem replace_category_twice_rows_differ:
  "category_rows ''rice''
      (replace_category later_clock ''rice''
         (extract_products example_unicode ''rice'' ''https://chaldal.com/rices'' [rice_element])
         (replace_category example_clock ''rice''
            (extract_products example_unicode ''rice'' ''https://chaldal.com/rices'' [rice_element])
            empty_db)) \<noteq>
   category_rows ''rice''
      (replace_category example_clock ''rice''
         (extract_products example_unicode ''rice'' ''https://chaldal.com/rices'' [rice_element])
         empty_db) \<and>
   map (\<lambda>r. (p_id r, p_scraped_at r))
     (category_rows ''rice''
        (replace_category example_clock ''rice''
           (extract_products example_unicode ''rice'' ''https://chaldal.com/rices'' [rice_element])
           empty_db)) = [(1, ''2025-01-05 10:00:00'')] \<and>
   map (\<lambda>r. (p_id r, p_scraped_at r))
     (category_rows ''rice''
        (replace_category later_clock ''rice''
           (extract_products example_unicode ''rice'' ''https://chaldal.com/rices'' [rice_element])
           (replace_category example_clock ''rice''
              (extract_products example_unicode ''rice'' ''https://chaldal.com/rices'' [rice_element])
              empty_db))) = [(2, ''2025-01-06 18:30:00'')]"
proof -
  let ?P = "\<lparr>pd_name = ''Miniket Rice'', pd_price = ''Tk 95'', pd_original_price = '''',
       pd_discount_percentage = '''', pd_quantity = ''1 kg'', pd_category = ''rice'',
       pd_product_url = Some ''https://chaldal.com/miniket-rice'',
       pd_image_url = Some ''https://chaldal.com/miniket-rice.png'',
       pd_scraped_url = ''https://chaldal.com/rices''\<rparr>"
  let ?d1 = "replace_category example_clock ''rice'' [?P] empty_db"
  let ?d2 = "replace_category later_clock ''rice'' [?P] ?d1"
  have c: "\<forall>p \<in> set [?P]. pd_category p = ''rice''"
    by simp
  have r1: "category_rows ''rice'' ?d1 = new_rows example_clock 0 0 [?P]"
    using category_rows_replace_category[OF c, of example_clock empty_db]
    by (simp add: empty_db_def)
  have r2: "category_rows ''rice'' ?d2 = new_rows later_clock 0 1 [?P]"
    using category_rows_replace_category[OF c, of later_clock ?d1]
    by (simp add: replace_category_tbl empty_db_def)
  have a: "map (\<lambda>r. (p_id r, p_scraped_at r)) (category_rows ''rice'' ?d1) =
           [(1, ''2025-01-05 10:00:00'')]"
    unfolding r1 by (simp add: product_row_of_def example_clock_def str_nat_0)
  have b: "map (\<lambda>r. (p_id r, p_scraped_at r)) (category_rows ''rice'' ?d2) =
           [(2, ''2025-01-06 18:30:00'')]"
    unfolding r2 by (simp add: product_row_of_def later_clock_def str_nat_0)
  have "map (\<lambda>r. (p_id r, p_scraped_at r)) (category_rows ''rice'' ?d2) \<noteq>
        map (\<lambda>r. (p_id r, p_scraped_at r)) (category_rows ''rice'' ?d1)"
    unfolding a b by simp
  then have n: "category_rows ''rice'' ?d2 \<noteq> category_rows ''rice'' ?d1"
    by auto
  from n a b show ?thesis
    unfolding example_rice_extraction by blast
qed

section \<open>Viewing stored products\<close>

lemma set_insert_desc: "set (insert_desc r rows) = insert r (set rows)"
  by (induction rows) auto

lemma mset_insert_desc: "mset (insert_desc r rows) = add_mset r (mset rows)"
  by (induction rows) auto

lemma sorted_insert_desc:
  "sorted_wrt (\<lambda>a b. p_scraped_at b \<le> p_scraped_at a) rows \<Longrightarrow>
   sorted_wrt (\<lambda>a b. p_scraped_at b \<le> p_scraped_at a) (insert_desc r rows)"
proof (induction rows)
  case Nil
  then show ?case by simp
next
  case (Cons x xs)
  show ?case
  proof (cases "p_scraped_at x \<le> p_scraped_at r")
    case True
    have "\<forall>y \<in> set xs. p_scraped_at y \<le> p_scraped_at r"
      using Cons.prems True by (auto intro: order_trans)
    with True Cons.prems show ?thesis by simp
  next
    case False
    then have "p_scraped_at r \<le> p_scraped_at x" by simp
    with False Cons show ?thesis by (auto simp: set_insert_desc)
  qed
qed

lemma mset_order_by: "mset (order_by_scraped_at_desc rows) = mset rows"
  unfolding order_by_scraped_at_desc_def by (induction rows) (simp_all add: mset_insert_desc)

lemma length_order_by: "length (order_by_scraped_at_desc rows) = length rows"
  using mset_order_by[of rows] by (metis size_mset)

lemma sorted_order_by:
  "sorted_wrt (\<lambda>a b. p_scraped_at b \<le> p_scraped_at a) (order_by_scraped_at_desc rows)"
  unfolding order_by_scraped_at_desc_def by (induction rows) (simp_all add: sorted_insert_desc)

lemma bind_integer_in_range:
  "- (2 ^ 63) \<le> limit \<Longrightarrow> limit < 2 ^ 63 \<Longrightarrow> bind_integer limit = Inr limit"
  by (simp add: bind_integer_def)

lemma bind_integer_out_of_range:
  "limit < - (2 ^ 63) \<or> 2 ^ 63 \<le> limit \<Longrightarrow> bind_integer limit = Inl OverflowError"
  by (auto simp: bind_integer_def)

lemma matching_rows_filter:
  "matching_rows d category =
     filter (\<lambda>r. truthy category \<longrightarrow> sql_like (''%'' @ the category @ ''%'') (p_category r))
       (products_tbl d)"
  by (simp add: matching_rows_def)

text \<open>
  The rows a query lists are the first rows of all matching rows in descending order of
  \<open>scraped_at\<close>: \<open>rest\<close> below are the matching rows that the limit cuts off.
\<close>

lemma select_products_top:
  assumes "- (2 ^ 63) \<le> limit" and "limit < 2 ^ 63"
  shows "\<exists>rows rest.
           select_products (Tables d) category limit = Inr rows \<and>
           mset (rows @ rest) = mset (matching_rows d category) \<and>
           sorted_wrt (\<lambda>a b. p_scraped_at b \<le> p_scraped_at a) (rows @ rest) \<and>
           (0 \<le> limit \<longrightarrow> length rows = min (nat limit) (length (matching_rows d category))) \<and>
           (limit < 0 \<longrightarrow> rest = [])"
proof -
  let ?all = "order_by_scraped_at_desc (matching_rows d category)"
  let ?rows = "sql_limit limit ?all"
  let ?rest = "if limit < 0 then [] else drop (nat limit) ?all"
  have s: "select_products (Tables d) category limit = Inr ?rows"
    using assms by (simp add: select_products_def bind_integer_in_range)
  have a: "?rows @ ?rest = ?all"
    by (simp add: sql_limit_def)
  have l: "0 \<le> limit \<longrightarrow> length ?rows = min (nat limit) (length (matching_rows d category))"
    by (simp add: sql_limit_def length_order_by min.commute)
  have m: "mset (?rows @ ?rest) = mset (matching_rows d category)"
    unfolding a by (rule mset_order_by)
  have o: "sorted_wrt (\<lambda>a b. p_scraped_at b \<le> p_scraped_at a) (?rows @ ?rest)"
    unfolding a by (rule sorted_order_by)
  have r: "limit < 0 \<longrightarrow> ?rest = []"
    by simp
  from s m o l r show ?thesis by blast
qed

lemma view_scraped_data_rows:
  "select_products file category limit = Inr rows \<Longrightarrow>
   snd (view_scraped_data file category limit) =
     (if rows = [] then
        CROSS_MARK @ '' No products found''
          @ (if truthy category then '' for category: '' @ the category else '''')
      else
        (if truthy category
         then PACKAGE_MARK @ '' Products from '' @ [CHR 0x27] @ the category @ [CHR 0x27]
                @ '' category ('' @ str_nat (length rows) @ '' items):'' @ [CHR 0x0A]
         else PACKAGE_MARK @ '' Recent Products ('' @ str_nat (length rows)
                @ '' items):'' @ [CHR 0x0A])
        @ concat (map product_line rows))"
  by (simp add: view_scraped_data_def)

lemma view_scraped_data_error:
  "select_products file category limit = Inl e \<Longrightarrow>
   snd (view_scraped_data file category limit) =
     CROSS_MARK @ '' Error viewing data: '' @ str_query_error e"
  by (simp add: view_scraped_data_def)

lemma view_scraped_data_read_only: "fst (view_scraped_data file category limit) = file"
  by (simp add: view_scraped_data_def split: sum.splits)

lemma str_nat_5: "str_nat 5 = ''5''"
  by code_simp

lemma like_rice:
  "sql_like ''%rice%'' ''rice''" "\<not> sql_like ''%rice%'' ''dal''"
  by code_simp+

lemma matching_rice:
  assumes "\<forall>r \<in> set (products_tbl d). p_category r = ''rice'' \<or> p_category r = ''dal''"
  shows "matching_rows d (Some ''rice'') = category_rows ''rice'' d"
proof -
  have "filter (\<lambda>r. sql_like ''%rice%'' (p_category r)) (products_tbl d) =
        filter (\<lambda>r. p_category r = ''rice'') (products_tbl d)"
    using assms like_rice by (intro filter_cong) auto
  then show ?thesis
    by (simp add: matching_rows_def truthy_def category_rows_def)
qed

text \<open>
  C8, as the code has it: \<open>view_scraped_data\<close> changes nothing in the database file,
  whatever its arguments. On a file without tables it returns the text "Error viewing
  data: no such table: products", and with a limit outside the range of a signed 64-bit
  integer it returns the text "Error viewing data: Python int too large to convert to
  SQLite INTEGER". Otherwise the rows it lists are the first rows of all matching rows
  taken most recently scraped first: the listed rows followed by the matching rows that
  are cut off are a rearrangement of the matching rows in descending order of
  \<open>scraped_at\<close>, where the matching rows are all rows of \<open>products\<close>, or with a category
  those whose category is \<open>LIKE '%category%'\<close>. With a limit that is not negative the
  number of listed rows is the smaller of the limit and the number of matching rows;
  with a negative limit every matching row is listed. The text returned is the
  header followed by one line per listed row, or "No products found" when no row is
  listed. In a store whose rows are ten of category "rice" and three of category "dal",
  \<open>view_scraped_data("rice", 5)\<close> lists exactly five rows, all of category "rice", and
  they are the five most recently scraped rows of category "rice", most recent first.
\<close>

theorem view_scraped_data_query:
  "fst (view_scraped_data file category limit) = file \<and>
   snd (view_scraped_data NoTables category limit) =
     CROSS_MARK @ '' Error viewing data: no such table: products'' \<and>
   (limit < - (2 ^ 63) \<or> 2 ^ 63 \<le> limit \<longrightarrow>
      snd (view_scraped_data (Tables d) category limit) =
        CROSS_MARK @ '' Error viewing data: Python int too large to convert to SQLite INTEGER'') \<and>
   (- (2 ^ 63) \<le> limit \<and> limit < 2 ^ 63 \<longrightarrow>
      (\<exists>rows rest.
         select_products (Tables d) category limit = Inr rows \<and>
         mset (rows @ rest) =
           mset (filter (\<lambda>r. truthy category \<longrightarrow>
                              sql_like (''%'' @ the category @ ''%'') (p_category r))
                   (products_tbl d)) \<and>
         sorted_wrt (\<lambda>a b. p_scraped_at b \<le> p_scraped_at a) (rows @ rest) \<and>
         (0 \<le> limit \<longrightarrow> length rows = min (nat limit) (length (rows @ rest))) \<and>
         (limit < 0 \<longrightarrow> rest = []) \<and>
         (rows = [] \<longrightarrow>
            snd (view_scraped_data (Tables d) category limit) =
              CROSS_MARK @ '' No products found''
                @ (if truthy category then '' for category: '' @ the category else '''')) \<and>
         (rows \<noteq> [] \<longrightarrow>
            snd (view_scraped_data (Tables d) category limit) =
              (if truthy category
               then PACKAGE_MARK @ '' Products from '' @ [CHR 0x27] @ the category @ [CHR 0x27]
                      @ '' category ('' @ str_nat (length rows) @ '' items):'' @ [CHR 0x0A]
               else PACKAGE_MARK @ '' Recent Products ('' @ str_nat (length rows)
                      @ '' items):'' @ [CHR 0x0A])
              @ concat (map product_line rows)))) \<and>
   ((\<forall>r \<in> set (products_tbl d). p_category r = ''rice'' \<or> p_category r = ''dal'') \<and>
    length (category_rows ''rice'' d) = 10 \<and> length (category_rows ''dal'' d) = 3 \<longrightarrow>
      (\<exists>rows rest.
         select_products (Tables d) (Some ''rice'') 5 = Inr rows \<and>
         length rows = 5 \<and>
         (\<forall>r \<in> set rows. p_category r = ''rice'') \<and>
         mset (rows @ rest) = mset (category_rows ''rice'' d) \<and>
         sorted_wrt (\<lambda>a b. p_scraped_at b \<le> p_scraped_at a) (rows @ rest) \<and>
         snd (view_scraped_data (Tables d) (Some ''rice'') 5) =
           PACKAGE_MARK @ '' Products from '' @ [CHR 0x27] @ ''rice'' @ [CHR 0x27]
             @ '' category (5 items):'' @ [CHR 0x0A] @ concat (map product_line rows)))"
proof -
  have a: "fst (view_scraped_data file category limit) = file"
    by (rule view_scraped_data_read_only)
  have b: "snd (view_scraped_data NoTables category limit) =
     CROSS_MARK @ '' Error viewing data: no such table: products''"
    by (simp add: view_scraped_data_def select_products_def)
  have c: "limit < - (2 ^ 63) \<or> 2 ^ 63 \<le> limit \<longrightarrow>
      snd (view_scraped_data (Tables d) category limit) =
        CROSS_MARK @ '' Error viewing data: Python int too large to convert to SQLite INTEGER''"
  proof
    assume "limit < - (2 ^ 63) \<or> 2 ^ 63 \<le> limit"
    then have "select_products (Tables d) category limit = Inl OverflowError"
      by (simp add: select_products_def bind_integer_out_of_range)
    then show "snd (view_scraped_data (Tables d) category limit) =
        CROSS_MARK @ '' Error viewing data: Python int too large to convert to SQLite INTEGER''"
      by (simp add: view_scraped_data_error)
  qed
  have e: "- (2 ^ 63) \<le> limit \<and> limit < 2 ^ 63 \<longrightarrow>
      (\<exists>rows rest.
         select_products (Tables d) category limit = Inr rows \<and>
         mset (rows @ rest) =
           mset (filter (\<lambda>r. truthy category \<longrightarrow>
                              sql_like (''%'' @ the category @ ''%'') (p_category r))
                   (products_tbl d)) \<and>
         sorted_wrt (\<lambda>a b. p_scraped_at b \<le> p_scraped_at a) (rows @ rest) \<and>
         (0 \<le> limit \<longrightarrow> length rows = min (nat limit) (length (rows @ rest))) \<and>
         (limit < 0 \<longrightarrow> rest = []) \<and>
         (rows = [] \<longrightarrow>
            snd (view_scraped_data (Tables d) category limit) =
              CROSS_MARK @ '' No products found''
                @ (if truthy category then '' for category: '' @ the category else '''')) \<and>
         (rows \<noteq> [] \<longrightarrow>
            snd (view_scraped_data (Tables d) category limit) =
              (if truthy category
               then PACKAGE_MARK @ '' Products from '' @ [CHR 0x27] @ the category @ [CHR 0x27]
                      @ '' category ('' @ str_nat (length rows) @ '' items):'' @ [CHR 0x0A]
               else PACKAGE_MARK @ '' Recent Products ('' @ str_nat (length rows)
                      @ '' items):'' @ [CHR 0x0A])
              @ concat (map product_line rows)))"
  proof
    assume r: "- (2 ^ 63) \<le> limit \<and> limit < 2 ^ 63"
    then obtain rows rest where
      s: "select_products (Tables d) category limit = Inr rows"
      and m: "mset (rows @ rest) = mset (matching_rows d category)"
      and o: "sorted_wrt (\<lambda>a b. p_scraped_at b \<le> p_scraped_at a) (rows @ rest)"
      and l: "0 \<le> limit \<longrightarrow> length rows = min (nat limit) (length (matching_rows d category))"
      and n: "limit < 0 \<longrightarrow> rest = []"
      using select_products_top[of limit d category] by blast
    from m have len: "length (rows @ rest) = length (matching_rows d category)"
      by (metis size_mset)
    have l': "0 \<le> limit \<longrightarrow> length rows = min (nat limit) (length (rows @ rest))"
      unfolding len by (rule l)
    note v = view_scraped_data_rows[OF s]
    have v1: "rows = [] \<longrightarrow>
            snd (view_scraped_data (Tables d) category limit) =
              CROSS_MARK @ '' No products found''
                @ (if truthy category then '' for category: '' @ the category else '''')"
      using v by simp
    have v2: "rows \<noteq> [] \<longrightarrow>
            snd (view_scraped_data (Tables d) category limit) =
              (if truthy category
               then PACKAGE_MARK @ '' Products from '' @ [CHR 0x27] @ the category @ [CHR 0x27]
                      @ '' category ('' @ str_nat (length rows) @ '' items):'' @ [CHR 0x0A]
               else PACKAGE_MARK @ '' Recent Products ('' @ str_nat (length rows)
                      @ '' items):'' @ [CHR 0x0A])
              @ concat (map product_line rows)"
      using v by simp
    from s m[unfolded matching_rows_filter] o l' n v1 v2
    show "\<exists>rows rest.
         select_products (Tables d) category limit = Inr rows \<and>
         mset (rows @ rest) =
           mset (filter (\<lambda>r. truthy category \<longrightarrow>
                              sql_like (''%'' @ the category @ ''%'') (p_category r))
                   (products_tbl d)) \<and>
         sorted_wrt (\<lambda>a b. p_scraped_at b \<le> p_scraped_at a) (rows @ rest) \<and>
         (0 \<le> limit \<longrightarrow> length rows = min (nat limit) (length (rows @ rest))) \<and>
         (limit < 0 \<longrightarrow> rest = []) \<and>
         (rows = [] \<longrightarrow>
            snd (view_scraped_data (Tables d) category limit) =
              CROSS_MARK @ '' No products found''
                @ (if truthy category then '' for category: '' @ the category else '''')) \<and>
         (rows \<noteq> [] \<longrightarrow>
            snd (view_scraped_data (Tables d) category limit) =
              (if truthy category
               then PACKAGE_MARK @ '' Products from '' @ [CHR 0x27] @ the category @ [CHR 0x27]
                      @ '' category ('' @ str_nat (length rows) @ '' items):'' @ [CHR 0x0A]
               else PACKAGE_MARK @ '' Recent Products ('' @ str_nat (length rows)
                      @ '' items):'' @ [CHR 0x0A])
              @ concat (map product_line rows))"
      by blast
  qed
  have f: "(\<forall>r \<in> set (products_tbl d). p_category r = ''rice'' \<or> p_category r = ''dal'') \<and>
    length (category_rows ''rice'' d) = 10 \<and> length (category_rows ''dal'' d) = 3 \<longrightarrow>
      (\<exists>rows rest.
         select_products (Tables d) (Some ''rice'') 5 = Inr rows \<and>
         length rows = 5 \<and>
         (\<forall>r \<in> set rows. p_category r = ''rice'') \<and>
         mset (rows @ rest) = mset (category_rows ''rice'' d) \<and>
         sorted_wrt (\<lambda>a b. p_scraped_at b \<le> p_scraped_at a) (rows @ rest) \<and>
         snd (view_scraped_data (Tables d) (Some ''rice'') 5) =
           PACKAGE_MARK @ '' Products from '' @ [CHR 0x27] @ ''rice'' @ [CHR 0x27]
             @ '' category (5 items):'' @ [CHR 0x0A] @ concat (map product_line rows))"
  proof
    assume h: "(\<forall>r \<in> set (products_tbl d). p_category r = ''rice'' \<or> p_category r = ''dal'') \<and>
      length (category_rows ''rice'' d) = 10 \<and> length (category_rows ''dal'' d) = 3"
    then have mr: "matching_rows d (Some ''rice'') = category_rows ''rice'' d"
      using matching_rice by blast
    obtain rows rest where
      s: "select_products (Tables d) (Some ''rice'') 5 = Inr rows"
      and m: "mset (rows @ rest) = mset (category_rows ''rice'' d)"
      and o: "sorted_wrt (\<lambda>a b. p_scraped_at b \<le> p_scraped_at a) (rows @ rest)"
      and l: "length rows = min (nat 5) (length (category_rows ''rice'' d))"
      using select_products_top[of 5 d "Some ''rice''"] unfolding mr by auto
    from l h have l5: "length rows = 5" by simp
    have "set rows \<subseteq> set (category_rows ''rice'' d)"
      using m by (metis set_mset_mset set_append Un_upper1)
    then have c: "\<forall>r \<in> set rows. p_category r = ''rice''"
      by (auto simp: category_rows_def)
    from l5 have "rows \<noteq> []" by auto
    then have v: "snd (view_scraped_data (Tables d) (Some ''rice'') 5) =
           PACKAGE_MARK @ '' Products from '' @ [CHR 0x27] @ ''rice'' @ [CHR 0x27]
             @ '' category (5 items):'' @ [CHR 0x0A] @ concat (map product_line rows)"
      using view_scraped_data_rows[OF s] l5 by (simp add: truthy_def str_nat_5)
    from s l5 c m o v
    show "\<exists>rows rest.
         select_products (Tables d) (Some ''rice'') 5 = Inr rows \<and>
         length rows = 5 \<and>
         (\<forall>r \<in> set rows. p_category r = ''rice'') \<and>
         mset (rows @ rest) = mset (category_rows ''rice'' d) \<and>
         sorted_wrt (\<lambda>a b. p_scraped_at b \<le> p_scraped_at a) (rows @ rest) \<and>
         snd (view_scraped_data (Tables d) (Some ''rice'') 5) =
           PACKAGE_MARK @ '' Products from '' @ [CHR 0x27] @ ''rice'' @ [CHR 0x27]
             @ '' category (5 items):'' @ [CHR 0x0A] @ concat (map product_line rows)"
      by blast
  qed
  from a b c e f show ?thesis by blast
qed

lemma scenario_row_category: "p_category (scenario_row category k) = category"
  by (simp add: scenario_row_def)

lemma scenario_rows:
  "category_rows ''rice'' scenario_db = map (scenario_row ''rice'') [0..<10]"
  "category_rows ''dal'' scenario_db = map (scenario_row ''dal'') [10..<13]"
  "\<forall>r \<in> set (products_tbl scenario_db). p_category r = ''rice'' \<or> p_category r = ''dal''"
  by (auto simp: category_rows_def scenario_db_def filter_map comp_def scenario_row_category)

lemma scenario_listing:
  "select_products (Tables scenario_db) (Some ''rice'') 5 =
     Inr (map (scenario_row ''rice'') [9, 8, 7, 6, 5])"
  by code_simp

lemma scenario_listing_all:
  "select_products (Tables scenario_db) (Some ''rice'') (- 1) =
     Inr (map (scenario_row ''rice'') [9, 8, 7, 6, 5, 4, 3, 2, 1, 0])"
  by code_simp

lemma scenario_names:
  "map p_name (map (scenario_row ''rice'') [9, 8, 7, 6, 5]) =
     [''rice no. 9'', ''rice no. 8'', ''rice no. 7'', ''rice no. 6'', ''rice no. 5'']"
  "map p_scraped_at (map (scenario_row ''rice'') [9, 8, 7, 6, 5]) =
     [''2025-01-05 10:00:19'', ''2025-01-05 10:00:18'', ''2025-01-05 10:00:17'',
      ''2025-01-05 10:00:16'', ''2025-01-05 10:00:15'']"
  by code_simp+

theorem view_scraped_data_query_witness:
  "fst (view_scraped_data (Tables scenario_db) (Some ''rice'') 5) = Tables scenario_db \<and>
   (\<exists>rows.
      select_products (Tables scenario_db) (Some ''rice'') 5 = Inr rows \<and>
      length rows = 5 \<and>
      map p_category rows = replicate 5 ''rice'' \<and>
      map p_name rows =
        [''rice no. 9'', ''rice no. 8'', ''rice no. 7'', ''rice no. 6'', ''rice no. 5''] \<and>
      map p_scraped_at rows =
        [''2025-01-05 10:00:19'', ''2025-01-05 10:00:18'', ''2025-01-05 10:00:17'',
         ''2025-01-05 10:00:16'', ''2025-01-05 10:00:15''] \<and>
      snd (view_scraped_data (Tables scenario_db) (Some ''rice'') 5) =
        PACKAGE_MARK @ '' Products from '' @ [CHR 0x27] @ ''rice'' @ [CHR 0x27]
          @ '' category (5 items):'' @ [CHR 0x0A] @ concat (map product_line rows)) \<and>
   snd (view_scraped_data NoTables (Some ''rice'') 5) =
     CROSS_MARK @ '' Error viewing data: no such table: products'' \<and>
   snd (view_scraped_data (Tables scenario_db) (Some ''rice'') (2 ^ 63)) =
     CROSS_MARK @ '' Error viewing data: Python int too large to convert to SQLite INTEGER''"
proof -
  note T = view_scraped_data_query[of "Tables scenario_db" "Some ''rice''" 5 scenario_db]
  note T2 = view_scraped_data_query[of "Tables scenario_db" "Some ''rice''" "2 ^ 63" scenario_db]
  have h: "(\<forall>r \<in> set (products_tbl scenario_db). p_category r = ''rice'' \<or> p_category r = ''dal'') \<and>
    length (category_rows ''rice'' scenario_db) = 10 \<and> length (category_rows ''dal'' scenario_db) = 3"
    by (simp add: scenario_rows)
  from T have a: "fst (view_scraped_data (Tables scenario_db) (Some ''rice'') 5) = Tables scenario_db"
    and n: "snd (view_scraped_data NoTables (Some ''rice'') 5) =
     CROSS_MARK @ '' Error viewing data: no such table: products''"
    by blast+
  from T h obtain rows rest where
    s: "select_products (Tables scenario_db) (Some ''rice'') 5 = Inr rows"
    and l: "length rows = 5"
    and c: "\<forall>r \<in> set rows. p_category r = ''rice''"
    and v: "snd (view_scraped_data (Tables scenario_db) (Some ''rice'') 5) =
        PACKAGE_MARK @ '' Products from '' @ [CHR 0x27] @ ''rice'' @ [CHR 0x27]
          @ '' category (5 items):'' @ [CHR 0x0A] @ concat (map product_line rows)"
    by blast
  from s have r: "rows = map (scenario_row ''rice'') [9, 8, 7, 6, 5]"
    unfolding scenario_listing by simp
  from c have "map p_category rows = replicate (length rows) ''rice''"
    by (simp add: map_replicate_const [symmetric] cong: map_cong)
  with l have g: "map p_category rows = replicate 5 ''rice''"
    by simp
  have nm: "map p_name rows =
        [''rice no. 9'', ''rice no. 8'', ''rice no. 7'', ''rice no. 6'', ''rice no. 5'']"
    and ts: "map p_scraped_at rows =
        [''2025-01-05 10:00:19'', ''2025-01-05 10:00:18'', ''2025-01-05 10:00:17'',
         ''2025-01-05 10:00:16'', ''2025-01-05 10:00:15'']"
    unfolding r by (rule scenario_names)+
  have "(2::int) ^ 63 \<le> 2 ^ 63" by simp
  with T2 have o: "snd (view_scraped_data (Tables scenario_db) (Some ''rice'') (2 ^ 63)) =
     CROSS_MARK @ '' Error viewing data: Python int too large to convert to SQLite INTEGER''"
    by blast
  have k: "\<exists>rows.
      select_products (Tables scenario_db) (Some ''rice'') 5 = Inr rows \<and>
      length rows = 5 \<and>
      map p_category rows = replicate 5 ''rice'' \<and>
      map p_name rows =
        [''rice no. 9'', ''rice no. 8'', ''rice no. 7'', ''rice no. 6'', ''rice no. 5''] \<and>
      map p_scraped_at rows =
        [''2025-01-05 10:00:19'', ''2025-01-05 10:00:18'', ''2025-01-05 10:00:17'',
         ''2025-01-05 10:00:16'', ''2025-01-05 10:00:15''] \<and>
      snd (view_scraped_data (Tables scenario_db) (Some ''rice'') 5) =
        PACKAGE_MARK @ '' Products from '' @ [CHR 0x27] @ ''rice'' @ [CHR 0x27]
          @ '' category (5 items):'' @ [CHR 0x0A] @ concat (map product_line rows)"
    apply (rule exI[of _ rows])
    apply (intro conjI)
         apply (rule s)
        apply (rule l)
       apply (rule g)
      apply (rule nm)
     apply (rule ts)
    apply (rule v)
    done
  show ?thesis
    apply (intro conjI)
       apply (rule a)
      apply (rule k)
     apply (rule n)
    apply (rule o)
    done
qed

theorem view_negative_limit_not_bounded:
  "\<exists>rows. select_products (Tables scenario_db) (Some ''rice'') (- 1) = Inr rows \<and>
          length rows = 10 \<and> \<not> int (length rows) \<le> - 1"
  unfolding scenario_listing_all by simp

section \<open>Category verification\<close>

lemma set_dict_set: "set (dict_set k v xs) \<subseteq> insert (k, v) (set xs)"
  by (induction k v xs rule: dict_set.induct) (auto split: if_splits)

lemma keys_dict_set: "fst ` set (dict_set k v xs) = insert k (fst ` set xs)"
  by (induction k v xs rule: dict_set.induct) (force split: if_splits)+

lemma verify_category_Some:
  "verify_category U driver now name info = Some entry \<longleftrightarrow>
     (\<exists>page n. driver (BASE_URL @ mi_url info) = Inr page \<and> pv_products page = Inr n \<and>
        agent_valid U page \<and>
        entry = \<lparr>ce_name = name, ce_url = mi_url info, ce_level = mi_level info,
                 ce_parent = mi_parent info, ce_product_count = n,
                 ce_verified = True, ce_verified_at = now name\<rparr>)"
  by (auto simp: verify_category_def agent_valid_def is_valid_def split: sum.splits)

lemma verify_category_accepts:
  "verify_category U driver now name info \<noteq> None \<longleftrightarrow>
     (\<exists>page. driver (BASE_URL @ mi_url info) = Inr page \<and> agent_valid U page)"
  by (auto simp: verify_category_def agent_valid_def is_valid_def split: sum.splits)

lemma verify_loop_keys:
  "fst ` set (verify_loop U driver now table verified) =
     fst ` set verified \<union>
     {lower U name | name info. (name, info) \<in> set table \<and>
        verify_category U driver now name info \<noteq> None}"
proof (induction table arbitrary: verified)
  case Nil
  then show ?case by simp
next
  case (Cons entry rest)
  obtain name info where e: "entry = (name, info)" by (cases entry)
  show ?case
  proof (cases "verify_category U driver now name info")
    case None
    then show ?thesis unfolding e by (auto simp: Cons.IH)
  next
    case (Some v)
    then show ?thesis unfolding e by (auto simp: Cons.IH keys_dict_set)
  qed
qed

lemma verify_loop_entries:
  "(k, v) \<in> set (verify_loop U driver now table verified) \<Longrightarrow>
   (k, v) \<in> set verified \<or>
   (\<exists>name info. (name, info) \<in> set table \<and> k = lower U name \<and>
      verify_category U driver now name info = Some v)"
proof (induction table arbitrary: verified)
  case Nil
  then show ?case by simp
next
  case (Cons entry rest)
  obtain name info where e: "entry = (name, info)" by (cases entry)
  show ?case
  proof (cases "verify_category U driver now name info")
    case None
    with Cons.prems have "(k, v) \<in> set (verify_loop U driver now rest verified)"
      unfolding e by simp
    from Cons.IH[OF this] show ?thesis unfolding e by auto
  next
    case (Some w)
    with Cons.prems have "(k, v) \<in> set (verify_loop U driver now rest (dict_set (lower U name) w verified))"
      unfolding e by simp
    from Cons.IH[OF this] show ?thesis
      unfolding e using Some set_dict_set[of "lower U name" w verified] by auto
  qed
qed

lemma script_verify_category_Some:
  "script_verify_category U driver name url_suffix = Some entry \<longleftrightarrow>
     (\<exists>page. driver (BASE_URL @ url_suffix) = Inr page \<and> spec_valid U page \<and>
        entry = \<lparr>se_name = name, se_url = url_suffix, se_level = category_level name,
                 se_full_url = BASE_URL @ url_suffix,
                 se_has_products = found_some (pv_products page), se_verified = True\<rparr>)"
  by (auto simp: script_verify_category_def spec_valid_def Let_def split: sum.splits)

lemma script_verify_category_accepts:
  "script_verify_category U driver name url_suffix \<noteq> None \<longleftrightarrow>
     (\<exists>page. driver (BASE_URL @ url_suffix) = Inr page \<and> spec_valid U page)"
  by (auto simp: script_verify_category_def spec_valid_def Let_def split: sum.splits)

lemma script_verify_loop_keys:
  "fst ` set (script_verify_loop U driver table verified) =
     fst ` set verified \<union>
     {lower U name | name url_suffix. (name, url_suffix) \<in> set table \<and>
        script_verify_category U driver name url_suffix \<noteq> None}"
proof (induction table arbitrary: verified)
  case Nil
  then show ?case by simp
next
  case (Cons entry rest)
  obtain name url_suffix where e: "entry = (name, url_suffix)" by (cases entry)
  show ?case
  proof (cases "script_verify_category U driver name url_suffix")
    case None
    then show ?thesis unfolding e by (auto simp: Cons.IH)
  next
    case (Some v)
    then show ?thesis unfolding e by (auto simp: Cons.IH keys_dict_set)
  qed
qed

lemma script_verify_loop_entries:
  "(k, v) \<in> set (script_verify_loop U driver table verified) \<Longrightarrow>
   (k, v) \<in> set verified \<or>
   (\<exists>name url_suffix. (name, url_suffix) \<in> set table \<and> k = lower U name \<and>
      script_verify_category U driver name url_suffix = Some v)"
proof (induction table arbitrary: verified)
  case Nil
  then show ?case by simp
next
  case (Cons entry rest)
  obtain name url_suffix where e: "entry = (name, url_suffix)" by (cases entry)
  show ?case
  proof (cases "script_verify_category U driver name url_suffix")
    case None
    with Cons.prems have "(k, v) \<in> set (script_verify_loop U driver rest verified)"
      unfolding e by simp
    from Cons.IH[OF this] show ?thesis unfolding e by auto
  next
    case (Some w)
    with Cons.prems
    have "(k, v) \<in> set (script_verify_loop U driver rest (dict_set (lower U name) w verified))"
      unfolding e by simp
    from Cons.IH[OF this] show ?thesis
      unfolding e using Some set_dict_set[of "lower U name" w verified] by auto
  qed
qed

lemma agent_keys:
  "fst ` set (extract_and_verify_categories U driver now) =
     {lower U name | name info. (name, info) \<in> set category_mappings \<and>
        (\<exists>page. driver (BASE_URL @ mi_url info) = Inr page \<and> agent_valid U page)}"
  unfolding extract_and_verify_categories_def verify_loop_keys verify_category_accepts
  by simp

lemma script_keys:
  "fst ` set (extract_specific_product_categories U driver) =
     {lower U name | name url_suffix. (name, url_suffix) \<in> set script_category_mappings \<and>
        (\<exists>page. driver (BASE_URL @ url_suffix) = Inr page \<and> spec_valid U page)}"
  unfolding extract_specific_product_categories_def script_verify_loop_keys
    script_verify_category_accepts
  by simp

lemma agent_entries:
  assumes "(k, v) \<in> set (extract_and_verify_categories U driver now)"
  shows "ce_verified v \<and> k = lower U (ce_name v) \<and>
         (ce_name v, \<lparr>mi_url = ce_url v, mi_level = ce_level v, mi_parent = ce_parent v\<rparr>)
           \<in> set category_mappings"
proof -
  from verify_loop_entries[OF assms[unfolded extract_and_verify_categories_def]]
  obtain name info where m: "(name, info) \<in> set category_mappings" and k: "k = lower U name"
    and s: "verify_category U driver now name info = Some v"
    by auto
  from s have "ce_verified v" "ce_name v = name"
    "\<lparr>mi_url = ce_url v, mi_level = ce_level v, mi_parent = ce_parent v\<rparr> = info"
    by (auto simp: verify_category_Some)
  with m k show ?thesis by simp
qed

lemma script_entries:
  assumes "(k, v) \<in> set (extract_specific_product_categories U driver)"
  shows "se_verified v \<and> k = lower U (se_name v) \<and>
         (se_name v, se_url v) \<in> set script_category_mappings"
proof -
  from script_verify_loop_entries[OF assms[unfolded extract_specific_product_categories_def]]
  obtain name url_suffix where m: "(name, url_suffix) \<in> set script_category_mappings"
    and k: "k = lower U name"
    and s: "script_verify_category U driver name url_suffix = Some v"
    by auto
  from s have "se_verified v" "se_name v = name" "se_url v = url_suffix"
    by (auto simp: script_verify_category_Some)
  with m k show ?thesis by simp
qed

text \<open>
  C9, as the code has it: both verifiers keep exactly the candidates whose page they
  classify as valid, under the lower-cased candidate name, and every entry they keep
  is marked verified and carries the name and URL of a candidate of the table; a
  candidate classified invalid, or whose check raised, leaves no entry. The
  stand-alone verifier classifies a page as valid exactly when the title contains the
  brand token, or a product item is present, or navigation markers are present. The
  verifier of the agent classifies a page as valid exactly when the title contains the
  brand token, or a product item is present, or the title does not contain "404"; it
  does not look at navigation markers.
\<close>

theorem verified_categories_subset:
  "fst ` set (extract_specific_product_categories U driver) =
     {lower U name | name url_suffix. (name, url_suffix) \<in> set script_category_mappings \<and>
        (\<exists>page. driver (BASE_URL @ url_suffix) = Inr page \<and> spec_valid U page)} \<and>
   (\<forall>k v. (k, v) \<in> set (extract_specific_product_categories U driver) \<longrightarrow>
      se_verified v \<and> k = lower U (se_name v) \<and>
      (se_name v, se_url v) \<in> set script_category_mappings) \<and>
   fst ` set (extract_and_verify_categories U driver now) =
     {lower U name | name info. (name, info) \<in> set category_mappings \<and>
        (\<exists>page. driver (BASE_URL @ mi_url info) = Inr page \<and> agent_valid U page)} \<and>
   (\<forall>k v. (k, v) \<in> set (extract_and_verify_categories U driver now) \<longrightarrow>
      ce_verified v \<and> k = lower U (ce_name v) \<and>
      (ce_name v, \<lparr>mi_url = ce_url v, mi_level = ce_level v, mi_parent = ce_parent v\<rparr>)
        \<in> set category_mappings)"
  using agent_keys[of U driver now] script_keys[of U driver] agent_entries[of _ _ U driver now]
    script_entries[of _ _ U driver]
  by blast

lemma title_examples:
  "\<not> py_in ''chaldal'' (lower example_unicode ''Page Not Found'')" "\<not> py_in ''404'' (lower example_unicode ''Page Not Found'')"
  "\<not> py_in ''chaldal'' (lower example_unicode ''404'')" "py_in ''404'' (lower example_unicode ''404'')"
  "py_in ''chaldal'' (lower example_unicode ''Rice - Chaldal'')"
  unfolding lower_example_unicode by code_simp+

lemma page_examples:
  "\<not> spec_valid example_unicode not_found_page" "agent_valid example_unicode not_found_page"
  "spec_valid example_unicode error_page_with_nav" "\<not> agent_valid example_unicode error_page_with_nav"
  "spec_valid example_unicode rice_page" "agent_valid example_unicode rice_page"
  by (simp_all add: spec_valid_def agent_valid_def found_some_def title_examples
        not_found_page_def error_page_with_nav_def rice_page_def)

lemma rice_candidate:
  "(''Rice'', \<lparr>mi_url = ''rices'', mi_level = 2, mi_parent = Some ''Cooking''\<rparr>) \<in> set category_mappings"
  "(''Rice'', ''rices'') \<in> set script_category_mappings"
  by (simp_all add: category_mappings_def script_category_mappings_def)

lemma agent_keeps:
  "(name, info) \<in> set category_mappings \<Longrightarrow> driver (BASE_URL @ mi_url info) = Inr page \<Longrightarrow>
   agent_valid U page \<Longrightarrow> lower U name \<in> fst ` set (extract_and_verify_categories U driver now)"
  unfolding agent_keys by blast

lemma script_keeps:
  "(name, url_suffix) \<in> set script_category_mappings \<Longrightarrow>
   driver (BASE_URL @ url_suffix) = Inr page \<Longrightarrow> spec_valid U page \<Longrightarrow>
   lower U name \<in> fst ` set (extract_specific_product_categories U driver)"
  unfolding script_keys by blast

theorem agent_verifier_keeps_not_found_page:
  "\<not> spec_valid example_unicode not_found_page \<and>
   ''rice'' \<in> fst ` set (extract_and_verify_categories example_unicode (\<lambda>url. Inr not_found_page) example_now) \<and>
   spec_valid example_unicode error_page_with_nav \<and>
   ''rice'' \<notin> fst ` set (extract_and_verify_categories example_unicode (\<lambda>url. Inr error_page_with_nav) example_now)"
proof -
  have b: "''rice'' \<in> fst ` set (extract_and_verify_categories example_unicode (\<lambda>url. Inr not_found_page) example_now)"
    using agent_keeps[OF rice_candidate(1), of "\<lambda>url. Inr not_found_page" not_found_page example_unicode
        example_now]
    by (simp add: page_examples lower_examples)
  have d: "''rice'' \<notin> fst ` set (extract_and_verify_categories example_unicode (\<lambda>url. Inr error_page_with_nav)
      example_now)"
    unfolding agent_keys by (simp add: page_examples)
  from b d show ?thesis by (simp add: page_examples)
qed

theorem verified_categories_subset_witness:
  "''rice'' \<in> fst ` set (extract_specific_product_categories example_unicode rice_only_browser) \<and>
   ''rice'' \<in> fst ` set (extract_and_verify_categories example_unicode rice_only_browser example_now) \<and>
   ''oil'' \<notin> fst ` set (extract_and_verify_categories example_unicode rice_only_browser example_now)"
proof -
  note T = verified_categories_subset[of example_unicode rice_only_browser example_now]
  have u: "rice_only_browser (BASE_URL @ ''rices'') = Inr rice_page"
    by (simp add: BASE_URL_def rice_only_browser_def)
  have "\<exists>name url_suffix. ''rice'' = lower example_unicode name \<and>
        (name, url_suffix) \<in> set script_category_mappings \<and>
        (\<exists>page. rice_only_browser (BASE_URL @ url_suffix) = Inr page \<and> spec_valid example_unicode page)"
    using rice_candidate(2) lower_examples(1) u page_examples(5)
    by (metis)
  with T have a: "''rice'' \<in> fst ` set (extract_specific_product_categories example_unicode rice_only_browser)"
    by simp
  have "\<exists>name info. ''rice'' = lower example_unicode name \<and> (name, info) \<in> set category_mappings \<and>
        (\<exists>page. rice_only_browser (BASE_URL @ mi_url info) = Inr page \<and> agent_valid example_unicode page)"
    using rice_candidate(1) lower_examples(1) u page_examples(6)
    by (metis mapping_info.select_convs(1))
  with T have b: "''rice'' \<in> fst ` set (extract_and_verify_categories example_unicode rice_only_browser example_now)"
    by simp
  have c: "''oil'' \<notin> fst ` set (extract_and_verify_categories example_unicode rice_only_browser example_now)"
  proof
    assume "''oil'' \<in> fst ` set (extract_and_verify_categories example_unicode rice_only_browser example_now)"
    with T have "''oil'' \<in> {lower example_unicode name | name info. (name, info) \<in> set category_mappings \<and>
        (\<exists>page. rice_only_browser (BASE_URL @ mi_url info) = Inr page \<and> agent_valid example_unicode page)}"
      by simp
    then obtain name info where n: "''oil'' = lower example_unicode name" "(name, info) \<in> set category_mappings"
      "BASE_URL @ mi_url info = ''https://chaldal.com/rices''"
      by (auto simp: rice_only_browser_def split: if_splits)
    from n(2,3) have "name = ''Rice''"
      by (auto simp: category_mappings_def BASE_URL_def)
    with n(1) show False by (simp add: lower_examples)
  qed
  from a b c show ?thesis by blast
qed

end
